theory Spec2Isabelle
  imports Complex_Main "HOL-Library.Word" "HOL-Library.AList"
begin

section \<open>Order identifiers\<close>

text \<open>
  Both storage backends compute the identifier of a new order as
  \<^verbatim>\<open>newCount.toString().padStart(4, "0")\<close>. The counter is a whole number. On the
  relational backend the JavaScript number holding it is modelled as an unbounded
  \<^typ>\<open>int\<close>, which is what the source computes for every value an \<^verbatim>\<open>INT\<close> column can
  hold. On the document backend the count is a JavaScript number that the code itself
  increments, modelled further down as a whole number from 0 to \<open>2 ^ 53\<close> where adding
  one stops; every such number prints as its decimal digits.
\<close>

definition digit_char :: "nat \<Rightarrow> char" where
  "digit_char d = ''0123456789'' ! d"

fun nat_to_string :: "nat \<Rightarrow> string" where
  "nat_to_string n =
     (if n < 10 then [digit_char n]
      else nat_to_string (n div 10) @ [digit_char (n mod 10)])"

declare nat_to_string.simps [simp del]

text \<open>\<^verbatim>\<open>Number.prototype.toString()\<close> on an integer: decimal digits, a minus sign when negative.\<close>

definition number_toString :: "int \<Rightarrow> string" where
  "number_toString i =
     (if i < 0 then CHR ''-'' # nat_to_string (nat (- i)) else nat_to_string (nat i))"

text \<open>
  \<^verbatim>\<open>String.prototype.padStart(targetLength, padString)\<close>: a string already long enough
  (or an empty pad) is returned as it is; otherwise the pad is repeated and cut to fill
  the missing length on the left.
\<close>

definition padStart :: "nat \<Rightarrow> string \<Rightarrow> string \<Rightarrow> string" where
  "padStart targetLength padString s =
     (if targetLength \<le> length s \<or> padString = [] then s
      else take (targetLength - length s)
             (concat (replicate (targetLength - length s) padString)) @ s)"

definition format_order_id :: "int \<Rightarrow> string" where
  "format_order_id newCount = padStart 4 ''0'' (number_toString newCount)"



section \<open>Orders: the data\<close>

text \<open>
  Amounts, prices and quantities are JavaScript numbers. The model keeps their type
  \<open>'n\<close> abstract: the only arithmetic the order code does on them is the product
  \<^verbatim>\<open>item.price * item.qty\<close>, written \<open>*\<close> here.
\<close>

record 'n item =
  name :: string
  qty :: 'n
  price :: 'n

text \<open>The request body of a submission; \<open>None\<close> is a total that is null.\<close>

record 'n order_data =
  totalAmount :: "'n option"
  paymentType :: string
  items :: "'n item list"

text \<open>What a submission returns: \<^verbatim>\<open>{ ...orderData, orderId: newOrderId }\<close>.\<close>

record 'n order = "'n order_data" +
  orderId :: string

text \<open>A row of table \<^verbatim>\<open>orders\<close> and a row of table \<^verbatim>\<open>transactions\<close>.\<close>

record 'n order_row =
  ord_orderId :: string
  ord_totalAmount :: "'n option"
  ord_paymentType :: string
  ord_status :: string
  ord_timestamp :: int

record 'n tx_row =
  tx_orderId :: string
  tx_item :: string
  tx_quantity :: 'n
  tx_total :: 'n

definition order_status :: "string \<Rightarrow> string" where
  "order_status pt = (if pt = ''Venmo'' then ''pending'' else ''paid'')"

definition with_order_id :: "'n order_data \<Rightarrow> string \<Rightarrow> 'n order" where
  "with_order_id orderData newOrderId =
     \<lparr> totalAmount = totalAmount orderData, paymentType = paymentType orderData,
       items = items orderData, orderId = newOrderId \<rparr>"

definition order_header :: "'n order_data \<Rightarrow> string \<Rightarrow> int \<Rightarrow> 'n order_row" where
  "order_header orderData newOrderId now =
     \<lparr> ord_orderId = newOrderId, ord_totalAmount = totalAmount orderData,
       ord_paymentType = paymentType orderData,
       ord_status = order_status (paymentType orderData), ord_timestamp = now \<rparr>"

definition item_row :: "string \<Rightarrow> ('n::times) item \<Rightarrow> 'n tx_row" where
  "item_row newOrderId it =
     \<lparr> tx_orderId = newOrderId, tx_item = name it, tx_quantity = qty it,
       tx_total = price it * qty it \<rparr>"

section \<open>The relational store (mariadb.js)\<close>

text \<open>
  The tables the order code touches: the row \<^verbatim>\<open>meta.id = 'counter'\<close> (absent when it was
  never seeded), and the tables \<^verbatim>\<open>orders\<close> and \<^verbatim>\<open>transactions\<close>, each listed in the
  order of its \<^verbatim>\<open>AUTO_INCREMENT\<close> primary key, which is the order of insertion.
\<close>

record 'n db =
  counter :: "int option"
  orders :: "'n order_row list"
  transactions :: "'n tx_row list"

text \<open>
  Every call to the store may fail (connection lost, timeout, a value the column
  refuses). Which calls fail is an input of the model: a predicate on the steps.
\<close>

datatype step =
  GetConnection | BeginTransaction | SelectCounter | UpdateCounter | InsertOrder
  | InsertItem nat | Commit | Rollback | SelectOrders | SelectAdminHash | SelectAdminSalt

text \<open>The calls of the document backend: the counter transaction, the write of the
  order document, the batch of line items, the read of the collection.\<close>

datatype fs_step = RunTransaction | OrderSet | BatchCommit | CollectionGet

datatype error =
  StoreError step | FirestoreError fs_step | TypeError | DuplicateEntry string
  | NoSuchTable | RangeError | DerivationError

text \<open>
  A pooled connection: the committed database every reader sees, and the private
  working copy of an open transaction. Statements run on the working copy when there is
  one; \<^verbatim>\<open>commit\<close> publishes it, \<^verbatim>\<open>rollback\<close> drops it.
\<close>

record 'n conn =
  committed :: "'n db"
  working :: "'n db option"

definition conn_view :: "'n conn \<Rightarrow> 'n db" where
  "conn_view c = (case working c of None \<Rightarrow> committed c | Some w \<Rightarrow> w)"

definition conn_write :: "('n db \<Rightarrow> 'n db) \<Rightarrow> 'n conn \<Rightarrow> 'n conn" where
  "conn_write f c =
     (case working c of
        None \<Rightarrow> c\<lparr>committed := f (committed c)\<rparr>
      | Some w \<Rightarrow> c\<lparr>working := Some (f w)\<rparr>)"

definition beginTransaction :: "(step \<Rightarrow> bool) \<Rightarrow> 'n conn \<Rightarrow> (error + unit) \<times> 'n conn" where
  "beginTransaction fails c =
     (if fails BeginTransaction then (Inl (StoreError BeginTransaction), c)
      else (Inr (), c\<lparr>working := Some (committed c)\<rparr>))"

definition commit :: "(step \<Rightarrow> bool) \<Rightarrow> 'n conn \<Rightarrow> (error + unit) \<times> 'n conn" where
  "commit fails c =
     (if fails Commit then (Inl (StoreError Commit), c)
      else (Inr (), (case working c of
                       None \<Rightarrow> c
                     | Some w \<Rightarrow> \<lparr>committed = w, working = None\<rparr>)))"

definition rollback :: "(step \<Rightarrow> bool) \<Rightarrow> 'n conn \<Rightarrow> (error + unit) \<times> 'n conn" where
  "rollback fails c =
     (if fails Rollback then (Inl (StoreError Rollback), c)
      else (Inr (), c\<lparr>working := None\<rparr>))"

text \<open>\<^verbatim>\<open>SELECT count FROM meta WHERE id = 'counter' FOR UPDATE\<close>: the rows found.\<close>

definition select_counter :: "(step \<Rightarrow> bool) \<Rightarrow> 'n conn \<Rightarrow> (error + int list) \<times> 'n conn" where
  "select_counter fails c =
     (if fails SelectCounter then (Inl (StoreError SelectCounter), c)
      else (Inr (case counter (conn_view c) of None \<Rightarrow> [] | Some n \<Rightarrow> [n]), c))"

text \<open>\<^verbatim>\<open>UPDATE meta SET count = ? WHERE id = 'counter'\<close>: changes the row when there is one.\<close>

definition update_counter :: "(step \<Rightarrow> bool) \<Rightarrow> int \<Rightarrow> 'n conn \<Rightarrow> (error + unit) \<times> 'n conn" where
  "update_counter fails newCount c =
     (if fails UpdateCounter then (Inl (StoreError UpdateCounter), c)
      else (Inr (), conn_write (\<lambda>d. d\<lparr>counter := map_option (\<lambda>_. newCount) (counter d)\<rparr>) c))"

text \<open>\<^verbatim>\<open>INSERT INTO orders\<close>: column \<^verbatim>\<open>orderId\<close> is \<^verbatim>\<open>UNIQUE\<close>, a second row with the same
  identifier is refused.\<close>

definition insert_order :: "(step \<Rightarrow> bool) \<Rightarrow> 'n order_row \<Rightarrow> 'n conn \<Rightarrow> (error + unit) \<times> 'n conn" where
  "insert_order fails row c =
     (if fails InsertOrder then (Inl (StoreError InsertOrder), c)
      else if ord_orderId row \<in> set (map ord_orderId (orders (conn_view c)))
      then (Inl (DuplicateEntry (ord_orderId row)), c)
      else (Inr (), conn_write (\<lambda>d. d\<lparr>orders := orders d @ [row]\<rparr>) c))"

definition insert_item :: "(step \<Rightarrow> bool) \<Rightarrow> nat \<Rightarrow> 'n tx_row \<Rightarrow> 'n conn \<Rightarrow> (error + unit) \<times> 'n conn" where
  "insert_item fails i row c =
     (if fails (InsertItem i) then (Inl (StoreError (InsertItem i)), c)
      else (Inr (), conn_write (\<lambda>d. d\<lparr>transactions := transactions d @ [row]\<rparr>) c))"

text \<open>Sequencing of awaited calls: a rejected promise throws, and the rest is skipped.\<close>

definition await :: "('c \<Rightarrow> (error + 'a) \<times> 'c) \<Rightarrow> ('a \<Rightarrow> 'c \<Rightarrow> (error + 'b) \<times> 'c) \<Rightarrow> 'c \<Rightarrow> (error + 'b) \<times> 'c" where
  "await m f c = (case m c of (Inl e, c') \<Rightarrow> (Inl e, c') | (Inr a, c') \<Rightarrow> f a c')"

text \<open>
  \<^verbatim>\<open>orderData.items.map((item) => conn.query("INSERT INTO transactions ...",
  [newOrderId, item.name, item.qty, item.price * item.qty]))\<close> under \<^verbatim>\<open>Promise.all\<close>: the
  inserts are queued on the one connection in the order of the items; the first to fail
  rejects the whole.
\<close>

fun insert_items :: "(step \<Rightarrow> bool) \<Rightarrow> string \<Rightarrow> nat \<Rightarrow> ('n::times) item list \<Rightarrow> 'n conn \<Rightarrow> (error + unit) \<times> 'n conn" where
  "insert_items fails newOrderId i [] c = (Inr (), c)"
| "insert_items fails newOrderId i (it # its) c =
     await (insert_item fails i (item_row newOrderId it))
       (\<lambda>_. insert_items fails newOrderId (Suc i) its) c"

text \<open>The body of the \<^verbatim>\<open>try\<close> block of \<^verbatim>\<open>submitOrder\<close>.\<close>

definition submitOrder_try :: "(step \<Rightarrow> bool) \<Rightarrow> int \<Rightarrow> ('n::times) order_data \<Rightarrow> 'n conn \<Rightarrow> (error + 'n order) \<times> 'n conn" where
  "submitOrder_try fails now orderData =
     await (beginTransaction fails) (\<lambda>_.
     await (select_counter fails) (\<lambda>counterRow.
       case counterRow of
         [] \<Rightarrow> (\<lambda>c. (Inl TypeError, c))
       | current # _ \<Rightarrow>
           (let newCount = current + 1;
                newOrderId = format_order_id newCount
            in await (update_counter fails newCount) (\<lambda>_.
               await (insert_order fails (order_header orderData newOrderId now)) (\<lambda>_.
               await (insert_items fails newOrderId 0 (items orderData)) (\<lambda>_.
               await (commit fails) (\<lambda>_ c.
                 (Inr (with_order_id orderData newOrderId), c))))))))"

text \<open>
  \<^verbatim>\<open>submitOrder\<close>: a connection is taken from the pool (outside the \<^verbatim>\<open>try\<close>), the body
  runs, and an error is caught, answered by \<^verbatim>\<open>conn.rollback()\<close> and thrown again. The
  connection is released in every case; what the next reader sees is the committed
  database.
\<close>

definition submitOrder :: "(step \<Rightarrow> bool) \<Rightarrow> int \<Rightarrow> ('n::times) db \<Rightarrow> 'n order_data \<Rightarrow> (error + 'n order) \<times> 'n db" where
  "submitOrder fails now db orderData =
     (if fails GetConnection then (Inl (StoreError GetConnection), db)
      else case submitOrder_try fails now orderData \<lparr>committed = db, working = None\<rparr> of
             (Inr result, c) \<Rightarrow> (Inr result, committed c)
           | (Inl err, c) \<Rightarrow>
               (case rollback fails c of
                  (Inl err', c') \<Rightarrow> (Inl err', committed c')
                | (Inr _, c') \<Rightarrow> (Inl err, committed c')))"

section \<open>Reading the orders back (mariadb.js)\<close>

text \<open>
  A row of the query of \<^verbatim>\<open>getOrders\<close>: the columns of an order, and those of one of its
  line items, all null when the \<^verbatim>\<open>LEFT JOIN\<close> found none.
\<close>

record 'n joined_row =
  row_orderId :: string
  row_totalAmount :: "'n option"
  row_paymentType :: string
  row_status :: string
  row_timestamp :: int
  row_item :: "string option"
  row_quantity :: "'n option"
  row_itemTotal :: "'n option"

definition join_row :: "'n order_row \<Rightarrow> 'n tx_row option \<Rightarrow> 'n joined_row" where
  "join_row o_row t =
     \<lparr> row_orderId = ord_orderId o_row, row_totalAmount = ord_totalAmount o_row,
       row_paymentType = ord_paymentType o_row, row_status = ord_status o_row,
       row_timestamp = ord_timestamp o_row,
       row_item = map_option tx_item t, row_quantity = map_option tx_quantity t,
       row_itemTotal = map_option tx_total t \<rparr>"

text \<open>
  \<^verbatim>\<open>FROM orders o LEFT JOIN transactions t ON o.orderId = t.orderId
  ORDER BY o.id DESC, t.id ASC\<close>: the orders from the last inserted to the first, each
  with its line items in the order of their insertion.
\<close>

definition select_orders_join :: "'n db \<Rightarrow> 'n joined_row list" where
  "select_orders_join db =
     concat (map (\<lambda>o_row.
        case filter (\<lambda>t. tx_orderId t = ord_orderId o_row) (transactions db) of
          [] \<Rightarrow> [join_row o_row None]
        | ts \<Rightarrow> map (\<lambda>t. join_row o_row (Some t)) ts) (rev (orders db)))"

text \<open>The objects \<^verbatim>\<open>getOrders\<close> returns.\<close>

record 'n listed_item =
  li_name :: string
  li_qty :: "'n option"
  li_total :: 'n

record 'n listed_order =
  lo_orderId :: string
  lo_totalAmount :: 'n
  lo_paymentType :: string
  lo_status :: string
  lo_timestamp :: int
  lo_items :: "'n listed_item list"

text \<open>
  One turn of the loop \<^verbatim>\<open>for (const row of rows)\<close>. The JavaScript \<^verbatim>\<open>Map\<close> is an
  association list in the order the keys were first set. The test \<^verbatim>\<open>if (row.item)\<close> is a
  test of truthiness: null and the empty string both fail it. \<^verbatim>\<open>parseFloat\<close> of a
  \<^verbatim>\<open>DECIMAL\<close> read as text gives the number back.
\<close>

definition group_row :: "(string \<times> ('n::zero) listed_order) list \<Rightarrow> 'n joined_row \<Rightarrow> (string \<times> 'n listed_order) list" where
  "group_row ordersMap row =
     (let m = (if map_of ordersMap (row_orderId row) = None
               then AList.update (row_orderId row)
                      \<lparr> lo_orderId = row_orderId row,
                        lo_totalAmount = (case row_totalAmount row of Some a \<Rightarrow> a | None \<Rightarrow> 0),
                        lo_paymentType = row_paymentType row, lo_status = row_status row,
                        lo_timestamp = row_timestamp row, lo_items = [] \<rparr> ordersMap
               else ordersMap)
      in case row_item row of
           None \<Rightarrow> m
         | Some item_name \<Rightarrow>
             if item_name = [] then m
             else AList.map_entry (row_orderId row)
                    (\<lambda>entry. entry\<lparr>lo_items := lo_items entry @
                       [\<lparr> li_name = item_name, li_qty = row_quantity row,
                          li_total = (case row_itemTotal row of Some a \<Rightarrow> a | None \<Rightarrow> 0) \<rparr>]\<rparr>) m)"

definition getOrders :: "(step \<Rightarrow> bool) \<Rightarrow> ('n::zero) db \<Rightarrow> error + 'n listed_order list" where
  "getOrders fails db =
     (if fails SelectOrders then Inl (StoreError SelectOrders)
      else Inr (map snd (foldl group_row [] (select_orders_join db))))"

section \<open>The document store (firestore.js)\<close>

text \<open>
  The document \<^verbatim>\<open>meta/counter\<close> (absent before the first order) and the collections
  \<^verbatim>\<open>orders\<close> and \<^verbatim>\<open>transactions\<close>. A document is stored under a name the client library
  generates; names are abstracted to numbers, and a collection is read in the order of
  the names.
\<close>

type_synonym docid = nat

text \<open>
  The count in the counter document is a JavaScript number. The code itself creates it
  at 1 and only ever adds one to it, so it is a whole number from 0 up to \<open>2 ^ 53\<close>: up
  to there every whole number is a number of the language, and adding one is exact; at
  \<open>2 ^ 53\<close> the sum \<open>2 ^ 53 + 1\<close> is not such a number and is rounded back to
  \<open>2 ^ 53\<close>, so the count stays.
\<close>

typedef js_count = "{n :: nat. n \<le> 2 ^ 53}"
  by (rule exI [of _ 0]) simp

setup_lifting type_definition_js_count

lift_definition count_of_nat :: "nat \<Rightarrow> js_count" is "\<lambda>n. min n (2 ^ 53)"
  by simp

lift_definition count_value :: "js_count \<Rightarrow> int" is "\<lambda>n. int n" .

text \<open>\<^verbatim>\<open>count + 1\<close> on such a number.\<close>

lift_definition count_plus_one :: "js_count \<Rightarrow> js_count" is "\<lambda>n. if n < 2 ^ 53 then n + 1 else n"
  by simp

record 'n fs_db =
  fs_counter :: "js_count option"
  fs_orders :: "(docid \<times> 'n order_row) list"
  fs_transactions :: "(docid \<times> 'n tx_row) list"

text \<open>
  \<^verbatim>\<open>submitOrder\<close> of firestore.js: a transaction on the counter document alone, then the
  order document, then one batch holding every line item. \<open>newDocId\<close> gives the generated
  names: number 0 for the order, \<open>Suc i\<close> for line item \<open>i\<close>.
\<close>

definition firestore_submitOrder :: "(fs_step \<Rightarrow> bool) \<Rightarrow> (nat \<Rightarrow> docid) \<Rightarrow> int \<Rightarrow> ('n::times) fs_db \<Rightarrow> 'n order_data \<Rightarrow> (error + 'n order) \<times> 'n fs_db" where
  "firestore_submitOrder fails newDocId now db orderData =
     (if fails RunTransaction then (Inl (FirestoreError RunTransaction), db)
      else
        let count = count_plus_one (case fs_counter db of Some n \<Rightarrow> n | None \<Rightarrow> count_of_nat 0);
            newOrderId = format_order_id (count_value count);
            db1 = db\<lparr>fs_counter := Some count\<rparr>
        in if fails OrderSet then (Inl (FirestoreError OrderSet), db1)
           else
             let db2 = db1\<lparr>fs_orders := fs_orders db1 @
                          [(newDocId 0, order_header orderData newOrderId now)]\<rparr>
             in if fails BatchCommit then (Inl (FirestoreError BatchCommit), db2)
                else (Inr (with_order_id orderData newOrderId),
                      db2\<lparr>fs_transactions := fs_transactions db2 @
                             map (\<lambda>(i, it). (newDocId (Suc i), item_row newOrderId it))
                               (enumerate 0 (items orderData))\<rparr>))"

text \<open>\<^verbatim>\<open>getOrders\<close> of firestore.js: the data of every document of collection \<^verbatim>\<open>orders\<close>.\<close>

definition firestore_getOrders :: "(fs_step \<Rightarrow> bool) \<Rightarrow> 'n fs_db \<Rightarrow> error + 'n order_row list" where
  "firestore_getOrders fails db =
     (if fails CollectionGet then Inl (FirestoreError CollectionGet)
      else Inr (map snd (sort_key fst (fs_orders db))))"

section \<open>The admin credential guard (mariadb.js)\<close>

type_synonym byte = "8 word"

text \<open>\<^verbatim>\<open>buf.toString('hex')\<close>: two lower-case hexadecimal digits for each byte.\<close>

definition hex_digit :: "nat \<Rightarrow> char" where
  "hex_digit d = ''0123456789abcdef'' ! d"

definition buffer_toString_hex :: "byte list \<Rightarrow> string" where
  "buffer_toString_hex bs =
     concat (map (\<lambda>b. [hex_digit (unat b div 16), hex_digit (unat b mod 16)]) bs)"

definition hex_value :: "char \<Rightarrow> nat option" where
  "hex_value c =
     (let n = (of_char c :: nat)
      in if 48 \<le> n \<and> n \<le> 57 then Some (n - 48)
         else if 97 \<le> n \<and> n \<le> 102 then Some (n - 87)
         else if 65 \<le> n \<and> n \<le> 70 then Some (n - 55)
         else None)"

text \<open>
  \<^verbatim>\<open>Buffer.from(s, 'hex')\<close>: one byte for each pair of hexadecimal digits, of either
  case; decoding stops at the first pair that is not one, and a last single character
  is dropped.
\<close>

fun buffer_from_hex :: "string \<Rightarrow> byte list" where
  "buffer_from_hex (a # b # rest) =
     (case (hex_value a, hex_value b) of
        (Some x, Some y) \<Rightarrow> word_of_nat (16 * x + y) # buffer_from_hex rest
      | _ \<Rightarrow> [])"
| "buffer_from_hex _ = []"

text \<open>\<^verbatim>\<open>crypto.timingSafeEqual\<close> throws a \<^verbatim>\<open>RangeError\<close> on buffers of different lengths.\<close>

definition timingSafeEqual :: "byte list \<Rightarrow> byte list \<Rightarrow> error + bool" where
  "timingSafeEqual a b = (if length a \<noteq> length b then Inl RangeError else Inr (a = b))"

text \<open>
  Table \<^verbatim>\<open>meta_text(id PRIMARY KEY, value TEXT)\<close>: \<open>None\<close> when the table was never
  created, else the value (which may be null) stored under each id.
\<close>

type_synonym meta_text = "(string \<rightharpoonup> string option) option"

definition select_meta_text :: "(step \<Rightarrow> bool) \<Rightarrow> step \<Rightarrow> meta_text \<Rightarrow> string \<Rightarrow> error + string option list" where
  "select_meta_text fails s tbl key =
     (if fails s then Inl (StoreError s)
      else case tbl of
             None \<Rightarrow> Inl NoSuchTable
           | Some t \<Rightarrow> Inr (case t key of None \<Rightarrow> [] | Some v \<Rightarrow> [v]))"

text \<open>\<^verbatim>\<open>row && row[0] ? row[0].value : null\<close>.\<close>

definition first_value :: "string option list \<Rightarrow> string option" where
  "first_value rows = (case rows of [] \<Rightarrow> None | v # _ \<Rightarrow> v)"

text \<open>Truthiness of a value that is a string or null.\<close>

definition truthy_text :: "string option \<Rightarrow> bool" where
  "truthy_text v = (case v of None \<Rightarrow> False | Some s \<Rightarrow> s \<noteq> [])"

text \<open>
  The key derivation \<^verbatim>\<open>crypto.pbkdf2Sync(password, salt, iterations, keylen, digest)\<close> is
  a parameter of the model: any function, which may throw.
\<close>

type_synonym kdf = "string \<Rightarrow> string \<Rightarrow> nat \<Rightarrow> nat \<Rightarrow> string \<Rightarrow> error + byte list"

definition validateAdminPassword_try :: "kdf \<Rightarrow> (step \<Rightarrow> bool) \<Rightarrow> meta_text \<Rightarrow> string \<Rightarrow> error + bool" where
  "validateAdminPassword_try pbkdf2Sync fails tbl password =
     (case select_meta_text fails SelectAdminHash tbl ''admin_hash'' of
        Inl e \<Rightarrow> Inl e
      | Inr adminHashRow \<Rightarrow>
     (case select_meta_text fails SelectAdminSalt tbl ''admin_salt'' of
        Inl e \<Rightarrow> Inl e
      | Inr adminSaltRow \<Rightarrow>
          (let storedHash = first_value adminHashRow;
               storedSalt = first_value adminSaltRow
           in if \<not> truthy_text storedHash \<or> \<not> truthy_text storedSalt then Inr False
              else case (storedHash, storedSalt) of
                     (Some hash, Some salt) \<Rightarrow>
                       (case pbkdf2Sync password salt 100000 64 ''sha512'' of
                          Inl e \<Rightarrow> Inl e
                        | Inr key \<Rightarrow>
                            (let derived = buffer_toString_hex key
                             in timingSafeEqual (buffer_from_hex derived) (buffer_from_hex hash)))
                   | _ \<Rightarrow> Inr False)))"

text \<open>\<^verbatim>\<open>validateAdminPassword\<close>: the \<^verbatim>\<open>catch\<close> turns every error into \<^verbatim>\<open>false\<close>.\<close>

definition validateAdminPassword :: "kdf \<Rightarrow> (step \<Rightarrow> bool) \<Rightarrow> meta_text \<Rightarrow> string \<Rightarrow> bool" where
  "validateAdminPassword pbkdf2Sync fails tbl password =
     (case validateAdminPassword_try pbkdf2Sync fails tbl password of
        Inl err \<Rightarrow> False
      | Inr ok \<Rightarrow> ok)"

section \<open>Admin session tokens (mariadb.js)\<close>

text \<open>
  \<^verbatim>\<open>adminTokens\<close> maps a token to its expiry, in milliseconds since the epoch. Time is
  an input: \<open>now\<close> is what \<^verbatim>\<open>Date.now()\<close> returns during the call. The token itself is
  \<^verbatim>\<open>crypto.randomBytes(24).toString('hex')\<close>, an input as well.
\<close>

definition ADMIN_TOKEN_TTL :: int where
  "ADMIN_TOKEN_TTL = 1000 * 60 * 30"

definition createAdminToken :: "string \<Rightarrow> int \<Rightarrow> (string \<rightharpoonup> int) \<Rightarrow> string \<times> (string \<rightharpoonup> int)" where
  "createAdminToken randomHex now adminTokens =
     (let token = randomHex; expiry = now + ADMIN_TOKEN_TTL
      in (token, adminTokens(token \<mapsto> expiry)))"

definition validateAdminToken :: "int \<Rightarrow> (string \<rightharpoonup> int) \<Rightarrow> string \<Rightarrow> bool \<times> (string \<rightharpoonup> int)" where
  "validateAdminToken now adminTokens token =
     (case adminTokens token of
        None \<Rightarrow> (False, adminTokens)
      | Some expiry \<Rightarrow>
          if expiry = 0 then (False, adminTokens)
          else if now > expiry then (False, adminTokens(token := None))
          else (True, adminTokens(token \<mapsto> now + ADMIN_TOKEN_TTL)))"

definition revokeAdminToken :: "(string \<rightharpoonup> int) \<Rightarrow> string \<Rightarrow> bool \<times> (string \<rightharpoonup> int)" where
  "revokeAdminToken adminTokens token =
     (if token = [] then (False, adminTokens)
      else (adminTokens token \<noteq> None, adminTokens(token := None)))"

section \<open>The login throttle (route /api/admin/login)\<close>




record attempt =
  count :: int
  firstAt :: int
  lockedUntil :: int

record login_state =
  loginAttempts :: "string \<rightharpoonup> attempt"
  adminTokens :: "string \<rightharpoonup> int"




section \<open>Validation of a catalog item (mariadb.js)\<close>

text \<open>
  The payload is parsed JSON, so a field can hold any JavaScript value. Numbers are
  doubles: not-a-number, the two infinities, or a finite value. An object or an array is
  kept as the string its conversion to a primitive gives.
\<close>

datatype jsnum = NaN | NegInf | Fin real | PosInf

datatype jsval =
  JUndefined | JNull | JBool bool | JNumber jsnum | JString string | JObject string

definition truthy :: "jsval \<Rightarrow> bool" where
  "truthy v =
     (case v of
        JUndefined \<Rightarrow> False
      | JNull \<Rightarrow> False
      | JBool b \<Rightarrow> b
      | JNumber n \<Rightarrow> n \<noteq> NaN \<and> n \<noteq> Fin 0
      | JString s \<Rightarrow> s \<noteq> []
      | JObject _ \<Rightarrow> True)"

definition typeof :: "jsval \<Rightarrow> string" where
  "typeof v =
     (case v of
        JUndefined \<Rightarrow> ''undefined''
      | JNull \<Rightarrow> ''object''
      | JBool _ \<Rightarrow> ''boolean''
      | JNumber _ \<Rightarrow> ''number''
      | JString _ \<Rightarrow> ''string''
      | JObject _ \<Rightarrow> ''object'')"

text \<open>
  \<^verbatim>\<open>Number(v)\<close>. The conversion of a string to a number (\<open>StringToNumber\<close> of the
  language definition) is a parameter of the model.
\<close>

definition Number :: "(string \<Rightarrow> jsnum) \<Rightarrow> jsval \<Rightarrow> jsnum" where
  "Number StringToNumber v =
     (case v of
        JUndefined \<Rightarrow> NaN
      | JNull \<Rightarrow> Fin 0
      | JBool b \<Rightarrow> Fin (if b then 1 else 0)
      | JNumber n \<Rightarrow> n
      | JString s \<Rightarrow> StringToNumber s
      | JObject s \<Rightarrow> StringToNumber s)"

definition isNaN :: "jsnum \<Rightarrow> bool" where
  "isNaN n = (n = NaN)"

text \<open>\<^verbatim>\<open>p < 0\<close> on numbers: false for not-a-number and for zero of either sign.\<close>

definition less_zero :: "jsnum \<Rightarrow> bool" where
  "less_zero n = (case n of NaN \<Rightarrow> False | NegInf \<Rightarrow> True | Fin x \<Rightarrow> x < 0 | PosInf \<Rightarrow> False)"

text \<open>
  \<^verbatim>\<open>String.prototype.trim\<close>. Strings are sequences of 8-bit characters here; the white
  space and line terminators of the language among them are tab, line feed, vertical tab,
  form feed, carriage return, space and no-break space.
\<close>

definition is_white_space :: "char \<Rightarrow> bool" where
  "is_white_space c = ((of_char c :: nat) \<in> {9, 10, 11, 12, 13, 32, 160})"

definition trim :: "string \<Rightarrow> string" where
  "trim s = rev (dropWhile is_white_space (rev (dropWhile is_white_space s)))"

text \<open>\<open>v.trim().length\<close> for a value that is a string.\<close>

definition trim_length :: "jsval \<Rightarrow> nat" where
  "trim_length v = (case v of JString s \<Rightarrow> length (trim s) | _ \<Rightarrow> 0)"

record catalog_item =
  ci_tab :: jsval
  ci_category :: jsval
  ci_name :: jsval
  ci_dataName :: jsval
  ci_price :: jsval

definition quoted :: "string \<Rightarrow> string" where
  "quoted s = CHR 0x27 # s @ [CHR 0x27]"

definition msg_missing :: string where
  "msg_missing = ''Missing item payload''"

definition msg_tab :: string where
  "msg_tab = quoted ''tab'' @ '' is required and must be '' @ quoted ''raffles''
               @ '' or '' @ quoted ''concessions''"

definition msg_category :: string where
  "msg_category = quoted ''category'' @ '' is required''"

definition msg_name :: string where
  "msg_name = quoted ''name'' @ '' is required''"

definition msg_dataName :: string where
  "msg_dataName = quoted ''dataName'' @ '' is required''"

definition msg_price :: string where
  "msg_price = quoted ''price'' @ '' must be a non-negative number''"

text \<open>\<^verbatim>\<open>errs.push(m)\<close> when the condition holds.\<close>

definition push_if :: "bool \<Rightarrow> string \<Rightarrow> string list \<Rightarrow> string list" where
  "push_if cond m errs = (if cond then errs @ [m] else errs)"

text \<open>\<^verbatim>\<open>validateItemFields\<close>; \<open>None\<close> is a payload that is not truthy.\<close>

definition validateItemFields :: "(string \<Rightarrow> jsnum) \<Rightarrow> catalog_item option \<Rightarrow> string list" where
  "validateItemFields StringToNumber item =
     (case item of
        None \<Rightarrow> [msg_missing]
      | Some it \<Rightarrow>
          (let tab = ci_tab it; category = ci_category it; name = ci_name it;
               dataName = ci_dataName it; price = ci_price it;
               errs = [];
               errs = push_if (\<not> truthy tab \<or>
                         (tab \<noteq> JString ''raffles'' \<and> tab \<noteq> JString ''concessions''))
                        msg_tab errs;
               errs = push_if (\<not> truthy category \<or> typeof category \<noteq> ''string'' \<or>
                         trim_length category = 0) msg_category errs;
               errs = push_if (\<not> truthy name \<or> typeof name \<noteq> ''string'' \<or>
                         trim_length name = 0) msg_name errs;
               errs = push_if (\<not> truthy dataName \<or> typeof dataName \<noteq> ''string'' \<or>
                         trim_length dataName = 0) msg_dataName errs;
               p = Number StringToNumber price;
               errs = push_if (isNaN p \<or> less_zero p) msg_price errs
           in errs))"

section \<open>What a committed order adds\<close>

text \<open>
  The database after an order is committed from counter value \<open>c\<close>: the counter is
  \<open>c + 1\<close>, and the header and one row for each line item are added, all under the
  identifier made from \<open>c + 1\<close>.
\<close>

definition committed_order :: "('n::times) db \<Rightarrow> 'n order_data \<Rightarrow> int \<Rightarrow> int \<Rightarrow> 'n db" where
  "committed_order db orderData now c =
     db\<lparr>counter := Some (c + 1),
        orders := orders db @ [order_header orderData (format_order_id (c + 1)) now],
        transactions := transactions db @ map (item_row (format_order_id (c + 1))) (items orderData)\<rparr>"

text \<open>The count the document backend reads: that of the counter document, 0 when there
  is none.\<close>

definition fs_current :: "'n fs_db \<Rightarrow> js_count" where
  "fs_current db = (case fs_counter db of Some n \<Rightarrow> n | None \<Rightarrow> count_of_nat 0)"

section \<open>Submissions one after another\<close>

text \<open>
  A sequence of submissions, each with its own faults, time and order, run one after
  the other on the relational backend; and the identifiers of those that succeeded, in
  the order they were committed.
\<close>

fun submitOrders :: "('n::times) db \<Rightarrow> ((step \<Rightarrow> bool) \<times> int \<times> 'n order_data) list \<Rightarrow> (error + 'n order) list \<times> 'n db" where
  "submitOrders db [] = ([], db)"
| "submitOrders db ((fails, now, orderData) # rest) =
     (let (r, db1) = submitOrder fails now db orderData;
          (rs, db2) = submitOrders db1 rest
      in (r # rs, db2))"

definition assigned_ids :: "(error + 'n order) list \<Rightarrow> string list" where
  "assigned_ids rs = concat (map (\<lambda>r. case r of Inl _ \<Rightarrow> [] | Inr x \<Rightarrow> [orderId x]) rs)"

section \<open>Example data\<close>

text \<open>The order of the end-to-end example: two pizza slices and a water, paid in cash,
  submitted when the counter is 41.\<close>

definition example_order :: "int order_data" where
  "example_order =
     \<lparr> totalAmount = Some 8, paymentType = ''Cash'',
       items = [\<lparr>name = ''Pizza Slice'', qty = 2, price = 3\<rparr>,
                \<lparr>name = ''Water'', qty = 1, price = 2\<rparr>] \<rparr>"

definition example_db :: "int db" where
  "example_db = \<lparr> counter = Some 41, orders = [], transactions = [] \<rparr>"

definition example_fs_db :: "int fs_db" where
  "example_fs_db = \<lparr> fs_counter = Some (count_of_nat 41), fs_orders = [], fs_transactions = [] \<rparr>"





definition example_row_1 :: "int tx_row" where
  "example_row_1 = \<lparr>tx_orderId = ''0042'', tx_item = ''Pizza Slice'', tx_quantity = 2, tx_total = 6\<rparr>"

definition example_row_2 :: "int tx_row" where
  "example_row_2 = \<lparr>tx_orderId = ''0042'', tx_item = ''Water'', tx_quantity = 1, tx_total = 2\<rparr>"

definition example_header :: "int order_row" where
  "example_header = \<lparr>ord_orderId = ''0042'', ord_totalAmount = Some 8, ord_paymentType = ''Cash'',
      ord_status = ''paid'', ord_timestamp = 0\<rparr>"

section \<open>What the listing of an order holds\<close>

text \<open>
  The line item listed for a stored row, the entry listed for an order, and the line
  items of an order that have a name, in the order of insertion.
\<close>

definition line_item_of :: "'n tx_row \<Rightarrow> 'n listed_item" where
  "line_item_of t = \<lparr>li_name = tx_item t, li_qty = Some (tx_quantity t), li_total = tx_total t\<rparr>"

definition order_entry :: "('n::zero) order_row \<Rightarrow> 'n listed_item list \<Rightarrow> 'n listed_order" where
  "order_entry o_row its =
     \<lparr> lo_orderId = ord_orderId o_row,
       lo_totalAmount = (case ord_totalAmount o_row of Some a \<Rightarrow> a | None \<Rightarrow> 0),
       lo_paymentType = ord_paymentType o_row, lo_status = ord_status o_row,
       lo_timestamp = ord_timestamp o_row, lo_items = its \<rparr>"

definition named_items_of :: "'n db \<Rightarrow> string \<Rightarrow> 'n listed_item list" where
  "named_items_of db oid =
     map line_item_of (filter (\<lambda>t. tx_orderId t = oid \<and> tx_item t \<noteq> []) (transactions db))"

definition order_block :: "'n db \<Rightarrow> 'n order_row \<Rightarrow> 'n joined_row list" where
  "order_block db o_row =
     (case filter (\<lambda>t. tx_orderId t = ord_orderId o_row) (transactions db) of
        [] \<Rightarrow> [join_row o_row None]
      | ts \<Rightarrow> map (\<lambda>t. join_row o_row (Some t)) ts)"

text \<open>An order with a line item whose name is the empty string.\<close>

definition unnamed_item_order :: "int order_data" where
  "unnamed_item_order =
     \<lparr> totalAmount = Some 4, paymentType = ''Cash'',
       items = [\<lparr>name = '''', qty = 1, price = 2\<rparr>,
                \<lparr>name = ''Water'', qty = 1, price = 2\<rparr>] \<rparr>"

section \<open>What the stored credential is\<close>

text \<open>The stored hash and salt, when both are there and neither is null or empty.\<close>

definition stored_credential :: "meta_text \<Rightarrow> (string \<times> string) option" where
  "stored_credential tbl =
     (case tbl of
        None \<Rightarrow> None
      | Some t \<Rightarrow>
          (case (t ''admin_hash'', t ''admin_salt'') of
             (Some (Some hash), Some (Some salt)) \<Rightarrow>
               if hash \<noteq> [] \<and> salt \<noteq> [] then Some (hash, salt) else None
           | _ \<Rightarrow> None))"

text \<open>A stand-in for the key derivation, for the examples: the bytes of password and
  salt, cut to the key length.\<close>

definition toy_kdf :: kdf where
  "toy_kdf password salt iterations keylen digest =
     (if password = ''boom'' then Inl DerivationError
      else Inr (map (\<lambda>c. word_of_nat (of_char c)) (take keylen (password @ salt))))"

definition example_meta_text :: meta_text where
  "example_meta_text = Some [''admin_hash'' \<mapsto> Some ''68694e61'', ''admin_salt'' \<mapsto> Some ''Na'']"

section \<open>Token and throttle: states and examples\<close>

text \<open>A token map holding one token, created at time 1000.\<close>

definition example_tokens :: "string \<rightharpoonup> int" where
  "example_tokens = [''a1b2'' \<mapsto> 1000 + ADMIN_TOKEN_TTL]"













section \<open>The rules of the catalog\<close>

text \<open>
  The rules, stated on the values: the tab is one of the two names; a text field is a
  string with a character that is not white space; the price converts to a number that is
  zero or more.
\<close>

definition tab_ok :: "jsval \<Rightarrow> bool" where
  "tab_ok v = (v = JString ''raffles'' \<or> v = JString ''concessions'')"

definition text_ok :: "jsval \<Rightarrow> bool" where
  "text_ok v = (\<exists>s. v = JString s \<and> (\<exists>c \<in> set s. \<not> is_white_space c))"

definition price_ok :: "(string \<Rightarrow> jsnum) \<Rightarrow> jsval \<Rightarrow> bool" where
  "price_ok StringToNumber v =
     (Number StringToNumber v = PosInf \<or> (\<exists>x. Number StringToNumber v = Fin x \<and> 0 \<le> x))"

text \<open>An item that breaks three rules at once, and one that breaks none.\<close>

definition bad_item :: catalog_item where
  "bad_item = \<lparr> ci_tab = JString ''other'', ci_category = JString ''Snacks'',
                ci_name = JString [], ci_dataName = JString ''pizza'',
                ci_price = JNumber (Fin (- 1)) \<rparr>"

definition good_item :: catalog_item where
  "good_item = \<lparr> ci_tab = JString ''concessions'', ci_category = JString ''Snacks'',
                 ci_name = JString ''Pizza Slice'', ci_dataName = JString ''pizza'',
                 ci_price = JNumber (Fin 3) \<rparr>"

section \<open>Decimal strings\<close>









lemma padStart_zero: "padStart n ''0'' s = replicate (n - length s) CHR ''0'' @ s"
  by (simp add: padStart_def)

lemma format_order_id_nonneg:
  assumes "0 \<le> n"
  shows "format_order_id n = replicate (4 - length (nat_to_string (nat n))) CHR ''0'' @ nat_to_string (nat n)"
  using assms by (simp add: format_order_id_def padStart_zero number_toString_def)

section \<open>Submitting an order\<close>

lemma insert_items_open:
  "working c = Some w \<Longrightarrow> insert_items fails oid i its c = (r, c') \<Longrightarrow>
     committed c' = committed c \<and> working c' \<noteq> None \<and>
     (r = Inr () \<longrightarrow> working c' = Some (w\<lparr>transactions := transactions w @ map (item_row oid) its\<rparr>))"
proof (induction its arbitrary: c w i)
  case Nil
  then show ?case by auto
next
  case (Cons it its)
  show ?case
  proof (cases "fails (InsertItem i)")
    case True
    with Cons.prems show ?thesis
      by (auto simp: await_def insert_item_def)
  next
    case False
    let ?w = "w\<lparr>transactions := transactions w @ [item_row oid it]\<rparr>"
    let ?c = "c\<lparr>working := Some ?w\<rparr>"
    from False Cons.prems have step: "insert_items fails oid (Suc i) its ?c = (r, c')"
      by (simp add: await_def insert_item_def conn_write_def)
    have "working ?c = Some ?w" by simp
    from Cons.IH[OF this step] show ?thesis by simp
  qed
qed

lemma insert_items_ok:
  "working c = Some w \<Longrightarrow> \<forall>j<length its. \<not> fails (InsertItem (i + j)) \<Longrightarrow>
   insert_items fails oid i its c = (Inr (), c\<lparr>working := Some (w\<lparr>transactions := transactions w @ map (item_row oid) its\<rparr>)\<rparr>)"
proof (induction its arbitrary: c w i)
  case Nil
  then show ?case by simp
next
  case (Cons it its)
  from Cons.prems(2) have f0: "\<not> fails (InsertItem i)" by force
  from Cons.prems(2) have rest: "\<forall>j<length its. \<not> fails (InsertItem (Suc i + j))" by force
  let ?w = "w\<lparr>transactions := transactions w @ [item_row oid it]\<rparr>"
  let ?c = "c\<lparr>working := Some ?w\<rparr>"
  have "working ?c = Some ?w" by simp
  from Cons.IH[OF this rest] f0 Cons.prems(1) show ?case
    by (simp add: await_def insert_item_def conn_write_def)
qed

lemma submitOrder_try_result:
  assumes "submitOrder_try fails now orderData \<lparr>committed = db, working = None\<rparr> = (r, c)"
  shows "(\<forall>res. r = Inr res \<longrightarrow> (\<exists>cur. counter db = Some cur
            \<and> format_order_id (cur + 1) \<notin> set (map ord_orderId (orders db))
            \<and> res = with_order_id orderData (format_order_id (cur + 1))
            \<and> c = \<lparr>committed = committed_order db orderData now cur, working = None\<rparr>))
       \<and> (\<forall>e. r = Inl e \<longrightarrow> committed c = db)"
  using assms
  unfolding submitOrder_try_def
  by (auto simp: await_def beginTransaction_def select_counter_def update_counter_def
      insert_order_def commit_def conn_view_def conn_write_def Let_def committed_order_def
      order_header_def
      split: if_splits prod.splits sum.splits list.splits option.splits
      dest!: insert_items_open[rotated])

lemma submitOrder_failure:
  assumes "submitOrder fails now db orderData = (Inl e, db')"
  shows "db' = db"
proof (cases "fails GetConnection")
  case True
  with assms show ?thesis by (simp add: submitOrder_def)
next
  case False
  obtain r c where tr: "submitOrder_try fails now orderData \<lparr>committed = db, working = None\<rparr> = (r, c)"
    by (cases "submitOrder_try fails now orderData \<lparr>committed = db, working = None\<rparr>")
  from False assms tr obtain e0 where r: "r = Inl e0"
    by (cases r) (auto simp: submitOrder_def)
  with submitOrder_try_result[OF tr] have "committed c = db" by simp
  with False assms tr r show ?thesis
    by (auto simp: submitOrder_def rollback_def split: if_splits)
qed

lemma submitOrder_committed:
  assumes "submitOrder fails now db orderData = (Inr res, db')"
  shows "\<exists>cur. counter db = Some cur
            \<and> format_order_id (cur + 1) \<notin> set (map ord_orderId (orders db))
            \<and> res = with_order_id orderData (format_order_id (cur + 1))
            \<and> db' = committed_order db orderData now cur"
proof -
  from assms have nf: "\<not> fails GetConnection" by (auto simp: submitOrder_def split: if_splits)
  obtain r c where tr: "submitOrder_try fails now orderData \<lparr>committed = db, working = None\<rparr> = (r, c)"
    by (cases "submitOrder_try fails now orderData \<lparr>committed = db, working = None\<rparr>")
  from nf assms tr have r: "r = Inr res" and c: "db' = committed c"
    by (cases r; auto simp: submitOrder_def rollback_def split: if_splits)+
  from submitOrder_try_result[OF tr] r c show ?thesis by auto
qed

lemma submitOrder_success:
  assumes "\<forall>s. \<not> fails s" and "counter db = Some cur"
    and "format_order_id (cur + 1) \<notin> ord_orderId ` set (orders db)"
  shows "submitOrder fails now db orderData =
           (Inr (with_order_id orderData (format_order_id (cur + 1))), committed_order db orderData now cur)"
proof -
  let ?oid = "format_order_id (cur + 1)"
  let ?w = "db\<lparr>counter := Some (cur + 1), orders := orders db @ [order_header orderData ?oid now]\<rparr>"
  let ?c = "\<lparr>committed = db, working = Some ?w\<rparr>"
  have "working ?c = Some ?w" by simp
  moreover from assms(1) have "\<forall>j<length (items orderData). \<not> fails (InsertItem (0 + j))" by simp
  ultimately have "insert_items fails ?oid 0 (items orderData) ?c =
      (Inr (), ?c\<lparr>working := Some (?w\<lparr>transactions := transactions ?w @ map (item_row ?oid) (items orderData)\<rparr>)\<rparr>)"
    by (rule insert_items_ok)
  with assms show ?thesis
    by (simp add: submitOrder_def submitOrder_try_def await_def beginTransaction_def select_counter_def
        update_counter_def insert_order_def commit_def conn_view_def conn_write_def Let_def committed_order_def
        order_header_def)
qed

lemma map_snd_named:
  "map (snd \<circ> (\<lambda>(i, it). (f i, g it))) (enumerate n xs) = map g xs"
  by (induction xs arbitrary: n) auto

lemma count_value_of_nat: "n \<le> 2 ^ 53 \<Longrightarrow> count_value (count_of_nat n) = int n"
  by transfer simp

lemma count_value_range: "0 \<le> count_value x \<and> count_value x \<le> 2 ^ 53"
  by transfer simp

lemma count_value_plus_one:
  "count_value (count_plus_one x) =
     (if count_value x < 2 ^ 53 then count_value x + 1 else count_value x)"
  by transfer simp

lemma count_eq_iff: "x = y \<longleftrightarrow> count_value x = count_value y"
  by transfer simp

lemma count_plus_one_of_nat:
  "n < 2 ^ 53 \<Longrightarrow> count_plus_one (count_of_nat n) = count_of_nat (Suc n)"
  by (simp add: count_eq_iff count_value_plus_one count_value_of_nat)

lemma count_plus_one_top: "count_plus_one (count_of_nat (2 ^ 53)) = count_of_nat (2 ^ 53)"
  by (simp add: count_eq_iff count_value_plus_one count_value_of_nat)

text \<open>The document backend, step by step: what each failure leaves, and what success
  leaves.\<close>

lemma firestore_submitOrder_result:
  "firestore_submitOrder fails newDocId now db orderData =
     (if fails RunTransaction then (Inl (FirestoreError RunTransaction), db)
      else if fails OrderSet
        then (Inl (FirestoreError OrderSet), db\<lparr>fs_counter := Some (count_plus_one (fs_current db))\<rparr>)
      else if fails BatchCommit
        then (Inl (FirestoreError BatchCommit),
              db\<lparr>fs_counter := Some (count_plus_one (fs_current db)),
                 fs_orders := fs_orders db @
                   [(newDocId 0, order_header orderData
                       (format_order_id (count_value (count_plus_one (fs_current db)))) now)]\<rparr>)
      else (Inr (with_order_id orderData
                   (format_order_id (count_value (count_plus_one (fs_current db))))),
            db\<lparr>fs_counter := Some (count_plus_one (fs_current db)),
               fs_orders := fs_orders db @
                 [(newDocId 0, order_header orderData
                     (format_order_id (count_value (count_plus_one (fs_current db)))) now)],
               fs_transactions := fs_transactions db @
                 map (\<lambda>(i, it). (newDocId (Suc i),
                        item_row (format_order_id (count_value (count_plus_one (fs_current db)))) it))
                   (enumerate 0 (items orderData))\<rparr>))"
  by (simp add: firestore_submitOrder_def fs_current_def Let_def)

lemma firestore_submitOrder_committed:
  assumes "firestore_submitOrder fails newDocId now db orderData = (Inr res, db')"
  shows "res = with_order_id orderData (format_order_id (count_value (count_plus_one (fs_current db))))
       \<and> fs_counter db' = Some (count_plus_one (fs_current db))
       \<and> map snd (fs_orders db') = map snd (fs_orders db) @ [order_header orderData (orderId res) now]
       \<and> map snd (fs_transactions db') = map snd (fs_transactions db) @ map (item_row (orderId res)) (items orderData)"
  using assms
  by (auto simp: firestore_submitOrder_result with_order_id_def split: if_splits
        simp: map_snd_named)

lemma firestore_submitOrder_success:
  assumes "\<not> fails RunTransaction" and "\<not> fails OrderSet" and "\<not> fails BatchCommit"
  shows "\<exists>res db'. firestore_submitOrder fails newDocId now db orderData = (Inr res, db')"
  using assms by (simp add: firestore_submitOrder_result)

lemma insert_items_no_failure:
  "insert_items fails oid i its c = (Inr u, c') \<Longrightarrow> \<forall>j<length its. \<not> fails (InsertItem (i + j))"
proof (induction its arbitrary: c i)
  case Nil
  then show ?case by simp
next
  case (Cons it its)
  from Cons.prems have f0: "\<not> fails (InsertItem i)"
    by (auto simp: await_def insert_item_def split: if_splits)
  with Cons.prems obtain c1 where "insert_items fails oid (Suc i) its c1 = (Inr u, c')"
    by (auto simp: await_def insert_item_def)
  from Cons.IH[OF this] have rest: "\<forall>j<length its. \<not> fails (InsertItem (Suc i + j))" .
  show ?case
  proof (intro allI impI)
    fix j assume "j < length (it # its)"
    with f0 rest show "\<not> fails (InsertItem (i + j))" by (cases j) auto
  qed
qed

text \<open>On the relational backend a failing step always surfaces: a submission that
  returns an order met no failure at any step.\<close>

lemma submitOrder_no_failure:
  assumes "submitOrder fails now db orderData = (Inr res, db')"
  shows "\<not> fails GetConnection \<and> \<not> fails BeginTransaction \<and> \<not> fails SelectCounter
       \<and> \<not> fails UpdateCounter \<and> \<not> fails InsertOrder
       \<and> (\<forall>j<length (items orderData). \<not> fails (InsertItem j)) \<and> \<not> fails Commit"
  using assms
  unfolding submitOrder_def submitOrder_try_def
  by (auto simp: await_def beginTransaction_def select_counter_def update_counter_def
      insert_order_def commit_def rollback_def Let_def
      split: if_splits prod.splits sum.splits list.splits option.splits
      dest!: insert_items_no_failure)

text \<open>Order identifiers stay unique in table \<^verbatim>\<open>orders\<close>, whatever a submission does.\<close>

lemma submitOrder_keeps_ids_distinct:
  assumes "distinct (map ord_orderId (orders db))"
    and "submitOrder fails now db orderData = (r, db')"
  shows "distinct (map ord_orderId (orders db'))"
proof (cases r)
  case (Inl e)
  with assms(2) have "db' = db" by (simp add: submitOrder_failure)
  with assms(1) show ?thesis by simp
next
  case (Inr res)
  with assms(2) obtain cur where "format_order_id (cur + 1) \<notin> set (map ord_orderId (orders db))"
    and "db' = committed_order db orderData now cur"
    by (auto dest!: submitOrder_committed)
  with assms(1) show ?thesis by (simp add: committed_order_def order_header_def)
qed

text \<open>
  Submissions run one after another from counter value \<open>c\<close>: those that succeed get the
  identifiers of \<open>c + 1\<close>, \<open>c + 2\<close>, ... in the order they commit, the failed ones use
  none up, and the counter ends at \<open>c\<close> plus the number of successes.
\<close>

lemma ids_shift:
  "f 1 # map (\<lambda>k. f (Suc k)) [1..<Suc n] = map f [1..<Suc (Suc n)]"
proof -
  have "[1..<Suc (Suc n)] = 1 # map Suc [1..<Suc n]"
    by (simp add: upt_conv_Cons map_Suc_upt del: upt_Suc)
  then show ?thesis by (simp add: comp_def del: upt_Suc)
qed

lemma sequential_submissions_get_consecutive_ids:
  assumes "counter db = Some c" and "submitOrders db reqs = (rs, db')"
  shows "assigned_ids rs = map (\<lambda>k. format_order_id (c + int k)) [1..<Suc (length (assigned_ids rs))]
       \<and> counter db' = Some (c + int (length (assigned_ids rs)))"
  using assms
proof (induction reqs arbitrary: db c rs db')
  case Nil
  then show ?case by (simp add: assigned_ids_def)
next
  case (Cons req reqs)
  obtain fails now od where req: "req = (fails, now, od)" by (cases req)
  obtain r db1 where one: "submitOrder fails now db od = (r, db1)"
    by (cases "submitOrder fails now db od")
  obtain rs1 db2 where more: "submitOrders db1 reqs = (rs1, db2)"
    by (cases "submitOrders db1 reqs")
  from Cons.prems(2) req one more have rs: "rs = r # rs1" and db': "db' = db2" by simp_all
  show ?case
  proof (cases r)
    case (Inl e)
    with one have "db1 = db" by (simp add: submitOrder_failure)
    with Cons.prems(1) more have "assigned_ids rs1 =
        map (\<lambda>k. format_order_id (c + int k)) [1..<Suc (length (assigned_ids rs1))]
       \<and> counter db2 = Some (c + int (length (assigned_ids rs1)))"
      using Cons.IH by blast
    moreover from Inl rs have "assigned_ids rs = assigned_ids rs1" by (simp add: assigned_ids_def)
    ultimately show ?thesis using db' by simp
  next
    case (Inr x)
    with one Cons.prems(1) have x: "orderId x = format_order_id (c + 1)" and c1: "counter db1 = Some (c + 1)"
      by (auto dest!: submitOrder_committed simp: with_order_id_def committed_order_def)
    let ?n = "length (assigned_ids rs1)"
    from Cons.IH[OF c1 more] have ih: "assigned_ids rs1 =
        map (\<lambda>k. format_order_id (c + 1 + int k)) [1..<Suc ?n]"
      and cnt: "counter db2 = Some (c + 1 + int ?n)" by blast+
    from Inr rs x have ids: "assigned_ids rs = format_order_id (c + 1) # assigned_ids rs1"
      by (simp add: assigned_ids_def)
    have "format_order_id (c + int 1) # map (\<lambda>k. format_order_id (c + int (Suc k))) [1..<Suc ?n]
        = map (\<lambda>k. format_order_id (c + int k)) [1..<Suc (Suc ?n)]"
      by (rule ids_shift[where f = "\<lambda>k. format_order_id (c + int k)"])
    moreover have "(\<lambda>k. format_order_id (c + 1 + int k)) = (\<lambda>k. format_order_id (c + int (Suc k)))"
      by (rule ext) (simp add: algebra_simps)
    ultimately have "format_order_id (c + 1) # assigned_ids rs1
        = map (\<lambda>k. format_order_id (c + int k)) [1..<Suc (Suc ?n)]"
      using ih by (simp del: upt_Suc)
    with ids have full: "assigned_ids rs = map (\<lambda>k. format_order_id (c + int k)) [1..<Suc (Suc ?n)]"
      by (simp only:)
    from ids have len: "length (assigned_ids rs) = Suc ?n" by simp
    from cnt db' have "counter db' = Some (c + int (Suc ?n))" by (simp add: algebra_simps)
    with full show ?thesis unfolding len by (simp only: simp_thms)
  qed
qed

section \<open>The claims about order submission\<close>

lemma format_order_id_42: "format_order_id 42 = ''0042''"
  by code_simp


text \<open>The document backend on the example database, for any order.\<close>

lemma example_fs_submit:
  "firestore_submitOrder (\<lambda>_. False) (\<lambda>i. i) 0 example_fs_db od =
     (Inr (with_order_id od ''0042''),
      \<lparr>fs_counter = Some (count_of_nat 42), fs_orders = [(0, order_header od ''0042'' 0)],
        fs_transactions = map (\<lambda>(i, it). (Suc i, item_row ''0042'' it)) (enumerate 0 (items od))\<rparr>)"
  by (simp add: firestore_submitOrder_result fs_current_def example_fs_db_def
      count_plus_one_of_nat count_value_of_nat format_order_id_42)

lemma example_fs_submit_example_order:
  "firestore_submitOrder (\<lambda>_. False) (\<lambda>i. i) 0 example_fs_db example_order =
     (Inr (with_order_id example_order ''0042''),
      \<lparr>fs_counter = Some (count_of_nat 42), fs_orders = [(0, example_header)],
        fs_transactions = [(1, example_row_1), (2, example_row_2)]\<rparr>)"
  unfolding example_fs_submit
  by (simp add: example_order_def example_header_def example_row_1_def example_row_2_def
      order_header_def order_status_def item_row_def)




text \<open>
  C8. After a successful submission the rows added to \<^verbatim>\<open>transactions\<close> are, in the order
  of the items, one row for each item, holding the new order identifier, the name, the
  quantity and the product of the item's own price and quantity. Changing the total the
  client sent changes none of them. This holds on both backends.
\<close>

theorem line_totals_computed_by_server:
  "(submitOrder fails now db od = (Inr r, db') \<longrightarrow>
      (\<exists>c. counter db = Some c \<and> orderId r = format_order_id (c + 1))
      \<and> transactions db' = transactions db @
           map (\<lambda>it. \<lparr>tx_orderId = orderId r, tx_item = name it, tx_quantity = qty it,
                       tx_total = price it * qty it\<rparr>) (items od)
      \<and> (\<forall>t r2 db2. submitOrder fails now db (od\<lparr>totalAmount := t\<rparr>) = (Inr r2, db2)
             \<longrightarrow> transactions db2 = transactions db'))
   \<and> (firestore_submitOrder ffails newDocId now' fdb od' = (Inr r', fdb') \<longrightarrow>
      orderId r' = format_order_id (count_value (count_plus_one (fs_current fdb)))
      \<and> map snd (fs_transactions fdb') = map snd (fs_transactions fdb) @
           map (\<lambda>it. \<lparr>tx_orderId = orderId r', tx_item = name it, tx_quantity = qty it,
                       tx_total = price it * qty it\<rparr>) (items od')
      \<and> (\<forall>t r2 fdb2. firestore_submitOrder ffails newDocId now' fdb (od'\<lparr>totalAmount := t\<rparr>) = (Inr r2, fdb2)
             \<longrightarrow> map snd (fs_transactions fdb2) = map snd (fs_transactions fdb')))"
proof -
  have rows: "item_row oid = (\<lambda>it. \<lparr>tx_orderId = oid, tx_item = name it, tx_quantity = qty it,
                       tx_total = price it * qty it\<rparr>)" for oid :: string
    by (rule ext) (simp add: item_row_def)
  have maria: "submitOrder fails now db od = (Inr r, db') \<longrightarrow>
      (\<exists>c. counter db = Some c \<and> orderId r = format_order_id (c + 1))
      \<and> transactions db' = transactions db @
           map (\<lambda>it. \<lparr>tx_orderId = orderId r, tx_item = name it, tx_quantity = qty it,
                       tx_total = price it * qty it\<rparr>) (items od)
      \<and> (\<forall>t r2 db2. submitOrder fails now db (od\<lparr>totalAmount := t\<rparr>) = (Inr r2, db2)
             \<longrightarrow> transactions db2 = transactions db')"
  proof
    assume a: "submitOrder fails now db od = (Inr r, db')"
    from submitOrder_committed[OF a] obtain cur where cur: "counter db = Some cur"
      and r: "r = with_order_id od (format_order_id (cur + 1))"
      and db': "db' = committed_order db od now cur" by blast
    have oid: "orderId r = format_order_id (cur + 1)" using r by (simp add: with_order_id_def)
    have tx: "transactions db' = transactions db @ map (item_row (orderId r)) (items od)"
      using db' oid by (simp add: committed_order_def)
    have indep: "\<forall>t r2 db2. submitOrder fails now db (od\<lparr>totalAmount := t\<rparr>) = (Inr r2, db2)
             \<longrightarrow> transactions db2 = transactions db'"
    proof (intro allI impI)
      fix t r2 db2
      assume b: "submitOrder fails now db (od\<lparr>totalAmount := t\<rparr>) = (Inr r2, db2)"
      from submitOrder_committed[OF b] cur
      have "db2 = committed_order db (od\<lparr>totalAmount := t\<rparr>) now cur" by auto
      with db' show "transactions db2 = transactions db'" by (simp add: committed_order_def)
    qed
    from cur oid tx indep show "(\<exists>c. counter db = Some c \<and> orderId r = format_order_id (c + 1))
      \<and> transactions db' = transactions db @
           map (\<lambda>it. \<lparr>tx_orderId = orderId r, tx_item = name it, tx_quantity = qty it,
                       tx_total = price it * qty it\<rparr>) (items od)
      \<and> (\<forall>t r2 db2. submitOrder fails now db (od\<lparr>totalAmount := t\<rparr>) = (Inr r2, db2)
             \<longrightarrow> transactions db2 = transactions db')"
      unfolding rows[symmetric] by blast
  qed
  have fire: "firestore_submitOrder ffails newDocId now' fdb od' = (Inr r', fdb') \<longrightarrow>
      orderId r' = format_order_id (count_value (count_plus_one (fs_current fdb)))
      \<and> map snd (fs_transactions fdb') = map snd (fs_transactions fdb) @
           map (\<lambda>it. \<lparr>tx_orderId = orderId r', tx_item = name it, tx_quantity = qty it,
                       tx_total = price it * qty it\<rparr>) (items od')
      \<and> (\<forall>t r2 fdb2. firestore_submitOrder ffails newDocId now' fdb (od'\<lparr>totalAmount := t\<rparr>) = (Inr r2, fdb2)
             \<longrightarrow> map snd (fs_transactions fdb2) = map snd (fs_transactions fdb'))"
  proof
    assume a: "firestore_submitOrder ffails newDocId now' fdb od' = (Inr r', fdb')"
    note A = firestore_submitOrder_committed[OF a]
    have indep: "\<forall>t r2 fdb2. firestore_submitOrder ffails newDocId now' fdb (od'\<lparr>totalAmount := t\<rparr>) = (Inr r2, fdb2)
             \<longrightarrow> map snd (fs_transactions fdb2) = map snd (fs_transactions fdb')"
    proof (intro allI impI)
      fix t r2 fdb2
      assume b: "firestore_submitOrder ffails newDocId now' fdb (od'\<lparr>totalAmount := t\<rparr>) = (Inr r2, fdb2)"
      from firestore_submitOrder_committed[OF b] A
      show "map snd (fs_transactions fdb2) = map snd (fs_transactions fdb')"
        by (simp add: with_order_id_def)
    qed
    from A indep show "orderId r' = format_order_id (count_value (count_plus_one (fs_current fdb)))
      \<and> map snd (fs_transactions fdb') = map snd (fs_transactions fdb) @
           map (\<lambda>it. \<lparr>tx_orderId = orderId r', tx_item = name it, tx_quantity = qty it,
                       tx_total = price it * qty it\<rparr>) (items od')
      \<and> (\<forall>t r2 fdb2. firestore_submitOrder ffails newDocId now' fdb (od'\<lparr>totalAmount := t\<rparr>) = (Inr r2, fdb2)
             \<longrightarrow> map snd (fs_transactions fdb2) = map snd (fs_transactions fdb'))"
      unfolding rows[symmetric] by (simp add: with_order_id_def)
  qed
  from maria fire show ?thesis by blast
qed

theorem line_totals_computed_by_server_witness:
  "submitOrder (\<lambda>_. False) 0 example_db example_order =
        (Inr (with_order_id example_order ''0042''),
         \<lparr>counter = Some 42, orders = [example_header], transactions = [example_row_1, example_row_2]\<rparr>)
   \<and> [example_row_1, example_row_2] =
        [\<lparr>tx_orderId = ''0042'', tx_item = ''Pizza Slice'', tx_quantity = 2, tx_total = 3 * 2\<rparr>,
         \<lparr>tx_orderId = ''0042'', tx_item = ''Water'', tx_quantity = 1, tx_total = 2 * 1\<rparr>]
   \<and> firestore_submitOrder (\<lambda>_. False) (\<lambda>i. i) 0 example_fs_db example_order =
        (Inr (with_order_id example_order ''0042''),
         \<lparr>fs_counter = Some (count_of_nat 42), fs_orders = [(0, example_header)],
           fs_transactions = [(1, example_row_1), (2, example_row_2)]\<rparr>)
   \<and> map snd [(1::nat, example_row_1), (2, example_row_2)] =
        [\<lparr>tx_orderId = ''0042'', tx_item = ''Pizza Slice'', tx_quantity = 2, tx_total = 3 * 2\<rparr>,
         \<lparr>tx_orderId = ''0042'', tx_item = ''Water'', tx_quantity = 1, tx_total = 2 * 1\<rparr>]"
proof -
  let ?db' = "\<lparr>counter = Some 42, orders = [example_header], transactions = [example_row_1, example_row_2]\<rparr>"
  let ?fdb' = "\<lparr>fs_counter = Some (count_of_nat 42), fs_orders = [(0, example_header)],
           fs_transactions = [(1, example_row_1), (2, example_row_2)]\<rparr>"
  let ?r = "with_order_id example_order ''0042''"
  have ev: "submitOrder (\<lambda>_. False) 0 example_db example_order = (Inr ?r, ?db')"
    by code_simp
  have fev: "firestore_submitOrder (\<lambda>_. False) (\<lambda>i. i) 0 example_fs_db example_order = (Inr ?r, ?fdb')"
    by (rule example_fs_submit_example_order)
  note T = line_totals_computed_by_server[where fails = "\<lambda>_. False" and now = 0 and db = example_db
      and od = example_order and r = ?r and db' = ?db' and ffails = "\<lambda>_. False"
      and newDocId = "\<lambda>i. i" and now' = 0 and fdb = example_fs_db and od' = example_order
      and r' = ?r and fdb' = ?fdb']
  from T ev have "transactions ?db' = transactions example_db @
           map (\<lambda>it. \<lparr>tx_orderId = orderId ?r, tx_item = name it, tx_quantity = qty it,
                       tx_total = price it * qty it\<rparr>) (items example_order)"
    by blast
  then have rows: "[example_row_1, example_row_2] =
        [\<lparr>tx_orderId = ''0042'', tx_item = ''Pizza Slice'', tx_quantity = 2, tx_total = 3 * 2\<rparr>,
         \<lparr>tx_orderId = ''0042'', tx_item = ''Water'', tx_quantity = 1, tx_total = 2 * 1\<rparr>]"
    by (simp add: example_db_def example_order_def with_order_id_def)
  from T fev have "map snd (fs_transactions ?fdb') = map snd (fs_transactions example_fs_db) @
           map (\<lambda>it. \<lparr>tx_orderId = orderId ?r, tx_item = name it, tx_quantity = qty it,
                       tx_total = price it * qty it\<rparr>) (items example_order)"
    by blast
  then have frows: "map snd [(1::nat, example_row_1), (2, example_row_2)] =
        [\<lparr>tx_orderId = ''0042'', tx_item = ''Pizza Slice'', tx_quantity = 2, tx_total = 3 * 2\<rparr>,
         \<lparr>tx_orderId = ''0042'', tx_item = ''Water'', tx_quantity = 1, tx_total = 2 * 1\<rparr>]"
    by (simp add: example_fs_db_def example_order_def with_order_id_def)
  from ev rows fev frows show ?thesis by blast
qed

text \<open>
  C10. The total stored in the order header, and the total of the order returned, are
  the total the client sent, on both backends; nothing recomputes it from the items. A
  submission that meets no failure does store that header and return that order. So the
  stored total can differ from the sum of the stored line totals: on either backend an
  order sent with total 100 whose lines add up to 8 is stored with total 100.
\<close>

theorem order_total_is_client_supplied:
  "(submitOrder fails now db od = (Inr r, db') \<longrightarrow>
      totalAmount r = totalAmount od
      \<and> (\<exists>header. orders db' = orders db @ [header] \<and> ord_orderId header = orderId r
             \<and> ord_totalAmount header = totalAmount od))
   \<and> ((\<forall>s. \<not> fails s) \<and> counter db = Some c
        \<and> format_order_id (c + 1) \<notin> ord_orderId ` set (orders db) \<longrightarrow>
      (\<exists>ra da header. submitOrder fails now db od = (Inr ra, da)
             \<and> totalAmount ra = totalAmount od
             \<and> orders da = orders db @ [header] \<and> ord_totalAmount header = totalAmount od))
   \<and> (firestore_submitOrder ffails newDocId now' fdb od' = (Inr r', fdb') \<longrightarrow>
      totalAmount r' = totalAmount od'
      \<and> (\<exists>header. map snd (fs_orders fdb') = map snd (fs_orders fdb) @ [header]
             \<and> ord_orderId header = orderId r' \<and> ord_totalAmount header = totalAmount od'))
   \<and> (\<not> ffails RunTransaction \<and> \<not> ffails OrderSet \<and> \<not> ffails BatchCommit \<longrightarrow>
      (\<exists>ra fa header. firestore_submitOrder ffails newDocId now' fdb od' = (Inr ra, fa)
             \<and> totalAmount ra = totalAmount od'
             \<and> map snd (fs_orders fa) = map snd (fs_orders fdb) @ [header]
             \<and> ord_totalAmount header = totalAmount od'))
   \<and> (\<exists>(oa :: int order_data) da ra db_after.
         submitOrder (\<lambda>_. False) 0 da oa = (Inr ra, db_after)
         \<and> ord_totalAmount (last (orders db_after))
             \<noteq> Some (sum_list (map tx_total (filter (\<lambda>t. tx_orderId t = orderId ra) (transactions db_after)))))
   \<and> (\<exists>(oa :: int order_data) fa ra f_after.
         firestore_submitOrder (\<lambda>_. False) (\<lambda>i. i) 0 fa oa = (Inr ra, f_after)
         \<and> ord_totalAmount (last (map snd (fs_orders f_after)))
             \<noteq> Some (sum_list (map tx_total
                   (filter (\<lambda>t. tx_orderId t = orderId ra) (map snd (fs_transactions f_after))))))"
proof -
  have maria: "submitOrder fails now db od = (Inr r, db') \<longrightarrow>
      totalAmount r = totalAmount od
      \<and> (\<exists>header. orders db' = orders db @ [header] \<and> ord_orderId header = orderId r
             \<and> ord_totalAmount header = totalAmount od)"
    by (auto dest!: submitOrder_committed simp: with_order_id_def committed_order_def order_header_def)
  have maria_ok: "(\<forall>s. \<not> fails s) \<and> counter db = Some c
        \<and> format_order_id (c + 1) \<notin> ord_orderId ` set (orders db) \<longrightarrow>
      (\<exists>ra da header. submitOrder fails now db od = (Inr ra, da)
             \<and> totalAmount ra = totalAmount od
             \<and> orders da = orders db @ [header] \<and> ord_totalAmount header = totalAmount od)"
  proof
    assume a: "(\<forall>s. \<not> fails s) \<and> counter db = Some c
        \<and> format_order_id (c + 1) \<notin> ord_orderId ` set (orders db)"
    then have "submitOrder fails now db od =
           (Inr (with_order_id od (format_order_id (c + 1))), committed_order db od now c)"
      by (intro submitOrder_success) simp_all
    then show "\<exists>ra da header. submitOrder fails now db od = (Inr ra, da)
             \<and> totalAmount ra = totalAmount od
             \<and> orders da = orders db @ [header] \<and> ord_totalAmount header = totalAmount od"
      by (simp add: with_order_id_def committed_order_def order_header_def)
  qed
  have fire: "firestore_submitOrder ffails newDocId now' fdb od' = (Inr r', fdb') \<longrightarrow>
      totalAmount r' = totalAmount od'
      \<and> (\<exists>header. map snd (fs_orders fdb') = map snd (fs_orders fdb) @ [header]
             \<and> ord_orderId header = orderId r' \<and> ord_totalAmount header = totalAmount od')"
    by (auto dest!: firestore_submitOrder_committed simp: with_order_id_def order_header_def)
  have fire_ok: "\<not> ffails RunTransaction \<and> \<not> ffails OrderSet \<and> \<not> ffails BatchCommit \<longrightarrow>
      (\<exists>ra fa header. firestore_submitOrder ffails newDocId now' fdb od' = (Inr ra, fa)
             \<and> totalAmount ra = totalAmount od'
             \<and> map snd (fs_orders fa) = map snd (fs_orders fdb) @ [header]
             \<and> ord_totalAmount header = totalAmount od')"
    by (simp add: firestore_submitOrder_result with_order_id_def order_header_def)
  let ?od = "example_order\<lparr>totalAmount := Some 100\<rparr>"
  let ?r = "with_order_id ?od ''0042''"
  let ?db' = "\<lparr>counter = Some 42, orders = [example_header\<lparr>ord_totalAmount := Some 100\<rparr>],
                transactions = [example_row_1, example_row_2]\<rparr>"
  let ?fdb' = "\<lparr>fs_counter = Some (count_of_nat 42),
                 fs_orders = [(0, example_header\<lparr>ord_totalAmount := Some 100\<rparr>)],
                 fs_transactions = [(1, example_row_1), (2, example_row_2)]\<rparr>"
  have ev: "submitOrder (\<lambda>_. False) 0 example_db ?od = (Inr ?r, ?db')"
    by code_simp
  have fev: "firestore_submitOrder (\<lambda>_. False) (\<lambda>i. i) 0 example_fs_db ?od = (Inr ?r, ?fdb')"
    unfolding example_fs_submit
    by (simp add: example_order_def example_header_def example_row_1_def example_row_2_def
        order_header_def order_status_def item_row_def)
  have ne: "ord_totalAmount (last (orders ?db'))
             \<noteq> Some (sum_list (map tx_total (filter (\<lambda>t. tx_orderId t = orderId ?r) (transactions ?db'))))"
    by (simp add: example_row_1_def example_row_2_def with_order_id_def)
  have fne: "ord_totalAmount (last (map snd (fs_orders ?fdb')))
             \<noteq> Some (sum_list (map tx_total
                   (filter (\<lambda>t. tx_orderId t = orderId ?r) (map snd (fs_transactions ?fdb')))))"
    by (simp add: example_row_1_def example_row_2_def with_order_id_def)
  from ev ne have diff: "\<exists>(oa :: int order_data) da ra db_after.
         submitOrder (\<lambda>_. False) 0 da oa = (Inr ra, db_after)
         \<and> ord_totalAmount (last (orders db_after))
             \<noteq> Some (sum_list (map tx_total (filter (\<lambda>t. tx_orderId t = orderId ra) (transactions db_after))))"
    by blast
  from fev fne have fdiff: "\<exists>(oa :: int order_data) fa ra f_after.
         firestore_submitOrder (\<lambda>_. False) (\<lambda>i. i) 0 fa oa = (Inr ra, f_after)
         \<and> ord_totalAmount (last (map snd (fs_orders f_after)))
             \<noteq> Some (sum_list (map tx_total
                   (filter (\<lambda>t. tx_orderId t = orderId ra) (map snd (fs_transactions f_after)))))"
    by blast
  from maria maria_ok fire fire_ok diff fdiff show ?thesis by blast
qed

theorem order_total_is_client_supplied_witness:
  "submitOrder (\<lambda>_. False) 0 example_db (example_order\<lparr>totalAmount := Some 100\<rparr>) =
        (Inr (with_order_id (example_order\<lparr>totalAmount := Some 100\<rparr>) ''0042''),
         \<lparr>counter = Some 42, orders = [example_header\<lparr>ord_totalAmount := Some 100\<rparr>],
           transactions = [example_row_1, example_row_2]\<rparr>)
   \<and> firestore_submitOrder (\<lambda>_. False) (\<lambda>i. i) 0 example_fs_db
         (example_order\<lparr>totalAmount := Some 100\<rparr>) =
        (Inr (with_order_id (example_order\<lparr>totalAmount := Some 100\<rparr>) ''0042''),
         \<lparr>fs_counter = Some (count_of_nat 42),
           fs_orders = [(0, example_header\<lparr>ord_totalAmount := Some 100\<rparr>)],
           fs_transactions = [(1, example_row_1), (2, example_row_2)]\<rparr>)
   \<and> totalAmount (with_order_id (example_order\<lparr>totalAmount := Some 100\<rparr>) ''0042'') = Some 100
   \<and> ord_totalAmount (example_header\<lparr>ord_totalAmount := Some 100\<rparr>) = Some 100
   \<and> sum_list (map tx_total [example_row_1, example_row_2]) = 8"
proof -
  let ?od = "example_order\<lparr>totalAmount := Some 100\<rparr>"
  let ?r = "with_order_id ?od ''0042''"
  let ?db' = "\<lparr>counter = Some 42, orders = [example_header\<lparr>ord_totalAmount := Some 100\<rparr>],
                transactions = [example_row_1, example_row_2]\<rparr>"
  let ?fdb' = "\<lparr>fs_counter = Some (count_of_nat 42),
                 fs_orders = [(0, example_header\<lparr>ord_totalAmount := Some 100\<rparr>)],
                 fs_transactions = [(1, example_row_1), (2, example_row_2)]\<rparr>"
  have ev: "submitOrder (\<lambda>_. False) 0 example_db ?od = (Inr ?r, ?db')"
    by code_simp
  have fev: "firestore_submitOrder (\<lambda>_. False) (\<lambda>i. i) 0 example_fs_db ?od = (Inr ?r, ?fdb')"
    unfolding example_fs_submit
    by (simp add: example_order_def example_header_def example_row_1_def example_row_2_def
        order_header_def order_status_def item_row_def)
  note T = order_total_is_client_supplied[where fails = "\<lambda>_. False" and now = 0 and db = example_db
      and od = ?od and r = ?r and db' = ?db' and c = 41 and ffails = "\<lambda>_. False"
      and newDocId = "\<lambda>i. i" and now' = 0 and fdb = example_fs_db and od' = ?od
      and r' = ?r and fdb' = ?fdb']
  from T ev have "totalAmount ?r = totalAmount ?od" by blast
  then have echo: "totalAmount ?r = Some 100" by simp
  from T fev have "\<exists>header. map snd (fs_orders ?fdb') = map snd (fs_orders example_fs_db) @ [header]
             \<and> ord_orderId header = orderId ?r \<and> ord_totalAmount header = totalAmount ?od"
    by blast
  then have hdr: "ord_totalAmount (example_header\<lparr>ord_totalAmount := Some 100\<rparr>) = Some 100"
    by (simp add: example_fs_db_def)
  have sum: "sum_list (map tx_total [example_row_1, example_row_2]) = 8"
    by (simp add: example_row_1_def example_row_2_def)
  from ev fev echo hdr sum show ?thesis by blast
qed

text \<open>
  C1, on the document backend. The counter is advanced in a transaction of its own,
  which is committed before the order is written. When the write of the order document
  fails, the submission ends in an error and the counter stays advanced from 41 to 42:
  identifier 0042 is used up and belongs to no order. When the batch of line items
  fails, the error leaves the order header behind without a single line item, and
  \<^verbatim>\<open>getOrders\<close> returns it. The relational backend, given the same order and a failure
  of the same writes, ends in the error with the database as it was.
\<close>

theorem firestore_failed_submission_is_not_rolled_back:
  "firestore_submitOrder (\<lambda>s. s = OrderSet) (\<lambda>i. i) 0 example_fs_db example_order =
     (Inl (FirestoreError OrderSet),
      \<lparr>fs_counter = Some (count_of_nat 42), fs_orders = [], fs_transactions = []\<rparr>)
   \<and> firestore_submitOrder (\<lambda>s. s = BatchCommit) (\<lambda>i. i) 0 example_fs_db example_order =
     (Inl (FirestoreError BatchCommit),
      \<lparr>fs_counter = Some (count_of_nat 42), fs_orders = [(0, example_header)],
        fs_transactions = []\<rparr>)
   \<and> firestore_getOrders (\<lambda>_. False)
        \<lparr>fs_counter = Some (count_of_nat 42), fs_orders = [(0, example_header)],
          fs_transactions = []\<rparr>
      = Inr [example_header]
   \<and> submitOrder (\<lambda>s. s = InsertOrder) 0 example_db example_order =
     (Inl (StoreError InsertOrder), example_db)
   \<and> submitOrder (\<lambda>s. s = InsertItem 1) 0 example_db example_order =
     (Inl (StoreError (InsertItem 1)), example_db)"
proof -
  have a: "firestore_submitOrder (\<lambda>s. s = OrderSet) (\<lambda>i. i) 0 example_fs_db example_order =
     (Inl (FirestoreError OrderSet),
      \<lparr>fs_counter = Some (count_of_nat 42), fs_orders = [], fs_transactions = []\<rparr>)"
    by (simp add: firestore_submitOrder_result fs_current_def example_fs_db_def
        count_plus_one_of_nat)
  have b: "firestore_submitOrder (\<lambda>s. s = BatchCommit) (\<lambda>i. i) 0 example_fs_db example_order =
     (Inl (FirestoreError BatchCommit),
      \<lparr>fs_counter = Some (count_of_nat 42), fs_orders = [(0, example_header)],
        fs_transactions = []\<rparr>)"
    by (simp add: firestore_submitOrder_result fs_current_def example_fs_db_def
        count_plus_one_of_nat count_value_of_nat format_order_id_42
        example_order_def example_header_def order_header_def order_status_def)
  have c: "firestore_getOrders (\<lambda>_. False)
        \<lparr>fs_counter = Some (count_of_nat 42), fs_orders = [(0, example_header)],
          fs_transactions = []\<rparr>
      = Inr [example_header]"
    by (simp add: firestore_getOrders_def)
  have d: "submitOrder (\<lambda>s. s = InsertOrder) 0 example_db example_order =
     (Inl (StoreError InsertOrder), example_db)"
    by code_simp
  have e: "submitOrder (\<lambda>s. s = InsertItem 1) 0 example_db example_order =
     (Inl (StoreError (InsertItem 1)), example_db)"
    by code_simp
  from a b c d e show ?thesis by blast
qed

section \<open>Listing the orders\<close>

lemma update_absent: "map_of m k = None \<Longrightarrow> AList.update k v m = m @ [(k, v)]"
  by (induction m) (auto split: if_splits)

lemma map_of_last: "map_of m k = None \<Longrightarrow> map_of (m @ [(k, v)]) k = Some v"
  by (induction m) (auto split: if_splits)

lemma map_entry_last:
  "map_of m k = None \<Longrightarrow> AList.map_entry k f (m @ [(k, v)]) = m @ [(k, f v)]"
  by (induction m) (auto split: if_splits)

lemma group_row_item:
  assumes "map_of m0 (ord_orderId o_row) = None"
  shows "group_row (m0 @ [(ord_orderId o_row, order_entry o_row its)]) (join_row o_row (Some t)) =
         m0 @ [(ord_orderId o_row,
                order_entry o_row (its @ map line_item_of (filter (\<lambda>t. tx_item t \<noteq> []) [t])))]"
  using assms
  by (simp add: group_row_def join_row_def map_of_last map_entry_last order_entry_def line_item_of_def)

lemma group_rows_items:
  assumes "map_of m0 (ord_orderId o_row) = None"
  shows "foldl group_row (m0 @ [(ord_orderId o_row, order_entry o_row its)])
           (map (\<lambda>t. join_row o_row (Some t)) ts) =
         m0 @ [(ord_orderId o_row,
                order_entry o_row (its @ map line_item_of (filter (\<lambda>t. tx_item t \<noteq> []) ts)))]"
proof (induction ts arbitrary: its)
  case Nil
  then show ?case by simp
next
  case (Cons t ts)
  show ?case
    using Cons.IH[of "its @ map line_item_of (filter (\<lambda>t. tx_item t \<noteq> []) [t])"]
    by (simp add: group_row_item[OF assms])
qed

lemma group_row_first:
  assumes "map_of m0 (ord_orderId o_row) = None"
  shows "group_row m0 (join_row o_row t) =
         group_row (m0 @ [(ord_orderId o_row, order_entry o_row [])]) (join_row o_row t)"
  using assms
  by (simp add: group_row_def join_row_def map_of_last update_absent order_entry_def)

lemma group_row_null:
  assumes "map_of m0 (ord_orderId o_row) = None"
  shows "group_row m0 (join_row o_row None) = m0 @ [(ord_orderId o_row, order_entry o_row [])]"
  using assms
  by (simp add: group_row_def join_row_def update_absent order_entry_def)

lemma filter_named: "filter (\<lambda>t. tx_item t \<noteq> []) (filter (\<lambda>t. tx_orderId t = oid) ts)
   = filter (\<lambda>t. tx_orderId t = oid \<and> tx_item t \<noteq> []) ts"
  by (induction ts) auto

lemma group_block:
  assumes "map_of m0 (ord_orderId o_row) = None"
  shows "foldl group_row m0 (order_block db o_row) =
         m0 @ [(ord_orderId o_row, order_entry o_row (named_items_of db (ord_orderId o_row)))]"
proof (cases "filter (\<lambda>t. tx_orderId t = ord_orderId o_row) (transactions db)")
  case Nil
  then have "named_items_of db (ord_orderId o_row) = []"
    unfolding named_items_of_def filter_named[symmetric] by simp
  with Nil show ?thesis
    by (simp add: order_block_def group_row_null[OF assms])
next
  case (Cons t ts)
  have "foldl group_row m0 (map (\<lambda>t. join_row o_row (Some t)) (t # ts)) =
        foldl group_row (m0 @ [(ord_orderId o_row, order_entry o_row [])])
          (map (\<lambda>t. join_row o_row (Some t)) (t # ts))"
    using group_row_first[OF assms, of "Some t"] by simp
  also have "\<dots> = m0 @ [(ord_orderId o_row,
                order_entry o_row ([] @ map line_item_of (filter (\<lambda>t. tx_item t \<noteq> []) (t # ts))))]"
    by (rule group_rows_items[OF assms])
  finally show ?thesis
    using Cons unfolding named_items_of_def filter_named[symmetric]
    by (simp add: order_block_def)
qed

lemma group_blocks:
  assumes "distinct (map ord_orderId os)"
    and "\<forall>o_row \<in> set os. map_of m0 (ord_orderId o_row) = None"
  shows "foldl group_row m0 (concat (map (order_block db) os)) =
         m0 @ map (\<lambda>o_row. (ord_orderId o_row,
                     order_entry o_row (named_items_of db (ord_orderId o_row)))) os"
  using assms
proof (induction os arbitrary: m0)
  case Nil
  then show ?case by simp
next
  case (Cons o_row os)
  let ?m1 = "m0 @ [(ord_orderId o_row, order_entry o_row (named_items_of db (ord_orderId o_row)))]"
  from Cons.prems have none: "map_of m0 (ord_orderId o_row) = None" by simp
  have "\<forall>x \<in> set os. map_of ?m1 (ord_orderId x) = None"
  proof
    fix x assume x: "x \<in> set os"
    from Cons.prems(1) have "ord_orderId o_row \<notin> ord_orderId ` set os" by simp
    with x have "ord_orderId x \<noteq> ord_orderId o_row" by (metis imageI)
    moreover from x Cons.prems have "map_of m0 (ord_orderId x) = None" by simp
    ultimately show "map_of ?m1 (ord_orderId x) = None" by (simp add: map_add_def)
  qed
  moreover from Cons.prems have "distinct (map ord_orderId os)" by simp
  ultimately have "foldl group_row ?m1 (concat (map (order_block db) os)) =
         ?m1 @ map (\<lambda>o_row. (ord_orderId o_row,
                     order_entry o_row (named_items_of db (ord_orderId o_row)))) os"
    by (rule Cons.IH[rotated])
  then show ?case by (simp add: group_block[OF none])
qed

lemma getOrders_lists_orders:
  assumes "distinct (map ord_orderId (orders db))"
  shows "getOrders fails db =
     (if fails SelectOrders then Inl (StoreError SelectOrders)
      else Inr (map (\<lambda>o_row. order_entry o_row (named_items_of db (ord_orderId o_row)))
                  (rev (orders db))))"
proof -
  have j: "select_orders_join db = concat (map (order_block db) (rev (orders db)))"
    unfolding select_orders_join_def order_block_def by (rule refl)
  from assms have d: "distinct (map ord_orderId (rev (orders db)))"
    by (simp add: rev_map[symmetric])
  have "foldl group_row [] (concat (map (order_block db) (rev (orders db)))) =
        [] @ map (\<lambda>o_row. (ord_orderId o_row,
                     order_entry o_row (named_items_of db (ord_orderId o_row)))) (rev (orders db))"
    by (rule group_blocks[OF d]) simp
  then show ?thesis
    by (simp add: getOrders_def j comp_def)
qed

text \<open>
  C7. The listing loses line items. On the relational backend the loop keeps a joined
  row's item only when \<^verbatim>\<open>row.item\<close> is truthy, so a stored line item whose name is the
  empty string is dropped: an order submitted with an unnamed item and a water is listed
  with the water alone. On the document backend \<^verbatim>\<open>getOrders\<close> returns the order documents
  as they are, in the order of their generated names, with no line items at all: two
  orders come back oldest first, without items.
\<close>

theorem getOrders_loses_line_items:
  "submitOrder (\<lambda>_. False) 0 example_db unnamed_item_order =
     (Inr (with_order_id unnamed_item_order ''0042''),
      \<lparr>counter = Some 42,
        orders = [\<lparr>ord_orderId = ''0042'', ord_totalAmount = Some 4, ord_paymentType = ''Cash'',
                   ord_status = ''paid'', ord_timestamp = 0\<rparr>],
        transactions = [\<lparr>tx_orderId = ''0042'', tx_item = '''', tx_quantity = 1, tx_total = 2\<rparr>,
                        \<lparr>tx_orderId = ''0042'', tx_item = ''Water'', tx_quantity = 1, tx_total = 2\<rparr>]\<rparr>)
   \<and> getOrders (\<lambda>_. False) (snd (submitOrder (\<lambda>_. False) 0 example_db unnamed_item_order)) =
     Inr [\<lparr>lo_orderId = ''0042'', lo_totalAmount = 4, lo_paymentType = ''Cash'',
           lo_status = ''paid'', lo_timestamp = 0,
           lo_items = [\<lparr>li_name = ''Water'', li_qty = Some 1, li_total = 2\<rparr>]\<rparr>]
   \<and> firestore_getOrders (\<lambda>_. False)
        (snd (firestore_submitOrder (\<lambda>_. False) (\<lambda>i. 10 + i) 1
           (snd (firestore_submitOrder (\<lambda>_. False) (\<lambda>i. i) 0 example_fs_db example_order))
           example_order)) =
     Inr [example_header,
          \<lparr>ord_orderId = ''0043'', ord_totalAmount = Some 8, ord_paymentType = ''Cash'',
            ord_status = ''paid'', ord_timestamp = 1\<rparr>]"
proof -
  have a: "submitOrder (\<lambda>_. False) 0 example_db unnamed_item_order =
     (Inr (with_order_id unnamed_item_order ''0042''),
      \<lparr>counter = Some 42,
        orders = [\<lparr>ord_orderId = ''0042'', ord_totalAmount = Some 4, ord_paymentType = ''Cash'',
                   ord_status = ''paid'', ord_timestamp = 0\<rparr>],
        transactions = [\<lparr>tx_orderId = ''0042'', tx_item = '''', tx_quantity = 1, tx_total = 2\<rparr>,
                        \<lparr>tx_orderId = ''0042'', tx_item = ''Water'', tx_quantity = 1, tx_total = 2\<rparr>]\<rparr>)"
    by code_simp
  have b: "getOrders (\<lambda>_. False) (snd (submitOrder (\<lambda>_. False) 0 example_db unnamed_item_order)) =
     Inr [\<lparr>lo_orderId = ''0042'', lo_totalAmount = 4, lo_paymentType = ''Cash'',
           lo_status = ''paid'', lo_timestamp = 0,
           lo_items = [\<lparr>li_name = ''Water'', li_qty = Some 1, li_total = 2\<rparr>]\<rparr>]"
    by code_simp
  have id43: "format_order_id 43 = ''0043''"
    by code_simp
  have second: "fs_orders (snd (firestore_submitOrder (\<lambda>_. False) (\<lambda>i. 10 + i) 1
           (snd (firestore_submitOrder (\<lambda>_. False) (\<lambda>i. i) 0 example_fs_db example_order))
           example_order)) =
        [(0, example_header),
         (10, \<lparr>ord_orderId = ''0043'', ord_totalAmount = Some 8, ord_paymentType = ''Cash'',
            ord_status = ''paid'', ord_timestamp = 1\<rparr>)]"
    unfolding example_fs_submit_example_order
    by (simp add: firestore_submitOrder_result fs_current_def count_plus_one_of_nat
        count_value_of_nat id43 example_order_def order_header_def order_status_def)
  have c: "firestore_getOrders (\<lambda>_. False)
        (snd (firestore_submitOrder (\<lambda>_. False) (\<lambda>i. 10 + i) 1
           (snd (firestore_submitOrder (\<lambda>_. False) (\<lambda>i. i) 0 example_fs_db example_order))
           example_order)) =
     Inr [example_header,
          \<lparr>ord_orderId = ''0043'', ord_totalAmount = Some 8, ord_paymentType = ''Cash'',
            ord_status = ''paid'', ord_timestamp = 1\<rparr>]"
    unfolding firestore_getOrders_def second by simp
  from a b c show ?thesis by blast
qed

section \<open>The credential guard\<close>

lemma hex_value_hex_digit: "d < 16 \<Longrightarrow> hex_value (hex_digit d) = Some d"
proof -
  have "\<forall>d \<in> {0..<16}. hex_value (hex_digit d) = Some d" by code_simp
  moreover assume "d < 16"
  ultimately show ?thesis by simp
qed

lemma byte_of_digits: "word_of_nat (16 * (unat b div 16) + unat b mod 16) = (b :: byte)"
  by simp

lemma unat_byte_div: "unat (b :: byte) div 16 < 16"
proof -
  have "unat b < 256" using unsigned_less[of b] by simp
  then show ?thesis by simp
qed

lemma buffer_hex_roundtrip: "buffer_from_hex (buffer_toString_hex bs) = bs"
proof (induction bs)
  case Nil
  then show ?case by (simp add: buffer_toString_hex_def)
next
  case (Cons b bs)
  have "buffer_toString_hex (b # bs) =
          hex_digit (unat b div 16) # hex_digit (unat b mod 16) # buffer_toString_hex bs"
    by (simp add: buffer_toString_hex_def)
  with Cons show ?case
    by (simp add: hex_value_hex_digit unat_byte_div del: of_nat_add of_nat_mult)
qed

lemma timingSafeEqual_true: "timingSafeEqual a b = Inr True \<longleftrightarrow> a = b"
  by (auto simp: timingSafeEqual_def)

lemma validateAdminPassword_try_result:
  "validateAdminPassword_try pbkdf2Sync fails tbl password =
     (if fails SelectAdminHash then Inl (StoreError SelectAdminHash)
      else if tbl = None then Inl NoSuchTable
      else if fails SelectAdminSalt then Inl (StoreError SelectAdminSalt)
      else case stored_credential tbl of
             None \<Rightarrow> Inr False
           | Some (hash, salt) \<Rightarrow>
               (case pbkdf2Sync password salt 100000 64 ''sha512'' of
                  Inl e \<Rightarrow> Inl e
                | Inr key \<Rightarrow> timingSafeEqual key (buffer_from_hex hash)))"
  by (auto simp: validateAdminPassword_try_def select_meta_text_def first_value_def truthy_text_def
      stored_credential_def buffer_hex_roundtrip Let_def split: option.splits sum.splits)

text \<open>
  C3. \<^verbatim>\<open>validateAdminPassword\<close> returns true exactly when both reads succeed, a hash
  and a salt are stored and neither is empty, the derivation (PBKDF2 called with 100000
  iterations, 64 bytes, sha512) yields a key, and that key is the stored hash decoded
  from hexadecimal. With no hash or no salt stored it returns false; when a read of the
  store or the derivation throws it returns false.
\<close>

theorem validateAdminPassword_rederives_stored_hash:
  "(validateAdminPassword pbkdf2Sync fails tbl password \<longleftrightarrow>
      (\<exists>hash salt key. \<not> fails SelectAdminHash \<and> \<not> fails SelectAdminSalt
          \<and> stored_credential tbl = Some (hash, salt)
          \<and> pbkdf2Sync password salt 100000 64 ''sha512'' = Inr key
          \<and> key = buffer_from_hex hash))
   \<and> (stored_credential tbl = None \<longrightarrow> \<not> validateAdminPassword pbkdf2Sync fails tbl password)
   \<and> ((\<exists>e. validateAdminPassword_try pbkdf2Sync fails tbl password = Inl e)
         \<longrightarrow> \<not> validateAdminPassword pbkdf2Sync fails tbl password)
   \<and> (fails SelectAdminHash \<or> fails SelectAdminSalt \<or> tbl = None
         \<longrightarrow> \<not> validateAdminPassword pbkdf2Sync fails tbl password)
   \<and> (\<forall>hash salt e. stored_credential tbl = Some (hash, salt)
         \<and> pbkdf2Sync password salt 100000 64 ''sha512'' = Inl e
         \<longrightarrow> \<not> validateAdminPassword pbkdf2Sync fails tbl password)"
proof -
  have iff: "validateAdminPassword pbkdf2Sync fails tbl password \<longleftrightarrow>
      (\<exists>hash salt key. \<not> fails SelectAdminHash \<and> \<not> fails SelectAdminSalt
          \<and> stored_credential tbl = Some (hash, salt)
          \<and> pbkdf2Sync password salt 100000 64 ''sha512'' = Inr key
          \<and> key = buffer_from_hex hash)"
    unfolding validateAdminPassword_def validateAdminPassword_try_result
    by (auto simp: timingSafeEqual_def stored_credential_def split: option.splits sum.splits)
  have unset: "stored_credential tbl = None \<longrightarrow> \<not> validateAdminPassword pbkdf2Sync fails tbl password"
    using iff by auto
  have err: "(\<exists>e. validateAdminPassword_try pbkdf2Sync fails tbl password = Inl e)
         \<longrightarrow> \<not> validateAdminPassword pbkdf2Sync fails tbl password"
    by (auto simp: validateAdminPassword_def)
  have store: "fails SelectAdminHash \<or> fails SelectAdminSalt \<or> tbl = None
         \<longrightarrow> \<not> validateAdminPassword pbkdf2Sync fails tbl password"
    using iff by (auto simp: stored_credential_def)
  have deriv: "\<forall>hash salt e. stored_credential tbl = Some (hash, salt)
         \<and> pbkdf2Sync password salt 100000 64 ''sha512'' = Inl e
         \<longrightarrow> \<not> validateAdminPassword pbkdf2Sync fails tbl password"
    using iff by auto
  from iff unset err store deriv show ?thesis by blast
qed

theorem validateAdminPassword_rederives_stored_hash_witness:
  "validateAdminPassword toy_kdf (\<lambda>_. False) example_meta_text ''hi''
   \<and> \<not> validateAdminPassword toy_kdf (\<lambda>_. False) example_meta_text ''ho''
   \<and> \<not> validateAdminPassword toy_kdf (\<lambda>_. False) example_meta_text ''boom''
   \<and> \<not> validateAdminPassword toy_kdf (\<lambda>_. False) (Some Map.empty) ''hi''
   \<and> \<not> validateAdminPassword toy_kdf (\<lambda>_. False) None ''hi''
   \<and> \<not> validateAdminPassword toy_kdf (\<lambda>s. s = SelectAdminSalt) example_meta_text ''hi''"
proof -
  have cred: "stored_credential example_meta_text = Some (''68694e61'', ''Na'')"
    by (simp add: stored_credential_def example_meta_text_def)
  have hex: "buffer_from_hex ''68694e61'' = [104, 105, 78, 97]"
    by (simp add: hex_value_def)
  have "toy_kdf ''hi'' ''Na'' 100000 64 ''sha512'' = Inr [104, 105, 78, 97]"
    by (simp add: toy_kdf_def)
  with hex have key: "toy_kdf ''hi'' ''Na'' 100000 64 ''sha512'' = Inr (buffer_from_hex ''68694e61'')"
    by simp
  have key2: "toy_kdf ''ho'' ''Na'' 100000 64 ''sha512'' = Inr [104, 111, 78, 97]"
    by (simp add: toy_kdf_def)
  have boom: "toy_kdf ''boom'' ''Na'' 100000 64 ''sha512'' = Inl DerivationError"
    by (simp add: toy_kdf_def)
  have empty: "stored_credential (Some Map.empty) = None"
    by (simp add: stored_credential_def)
  note T = validateAdminPassword_rederives_stored_hash
  from T[of toy_kdf "\<lambda>_. False" example_meta_text "''hi''"] cred key
  have a: "validateAdminPassword toy_kdf (\<lambda>_. False) example_meta_text ''hi''" by blast
  from T[of toy_kdf "\<lambda>_. False" example_meta_text "''ho''"] cred key2 hex
  have b: "\<not> validateAdminPassword toy_kdf (\<lambda>_. False) example_meta_text ''ho''" by auto
  from T[of toy_kdf "\<lambda>_. False" example_meta_text "''boom''"] cred boom
  have c: "\<not> validateAdminPassword toy_kdf (\<lambda>_. False) example_meta_text ''boom''" by blast
  from T[of toy_kdf "\<lambda>_. False" "Some Map.empty" "''hi''"] empty
  have d: "\<not> validateAdminPassword toy_kdf (\<lambda>_. False) (Some Map.empty) ''hi''" by blast
  from T[of toy_kdf "\<lambda>_. False" None "''hi''"]
  have e: "\<not> validateAdminPassword toy_kdf (\<lambda>_. False) None ''hi''" by blast
  from T[of toy_kdf "\<lambda>s. s = SelectAdminSalt" example_meta_text "''hi''"]
  have f: "\<not> validateAdminPassword toy_kdf (\<lambda>s. s = SelectAdminSalt) example_meta_text ''hi''" by blast
  from a b c d e f show ?thesis by blast
qed

section \<open>Session tokens\<close>

text \<open>
  C5. A token created or validated at time \<open>T\<close> expires at \<open>T\<close> plus 30 minutes. Until
  then (that instant included) a validation succeeds and moves the expiry to the time of
  that validation plus 30 minutes; after it a validation fails and removes the entry.
  Validating a token that is not in the map fails and changes nothing.
\<close>

theorem admin_token_sliding_expiry:
  assumes "0 \<le> T"
  shows "ADMIN_TOKEN_TTL = 30 * 60 * 1000
       \<and> snd (createAdminToken tok T s) tok = Some (T + ADMIN_TOKEN_TTL)
       \<and> (validateAdminToken T s tok = (True, sr) \<longrightarrow> sr tok = Some (T + ADMIN_TOKEN_TTL))
       \<and> (sv tok = Some (T + ADMIN_TOKEN_TTL) \<and> T' \<le> T + ADMIN_TOKEN_TTL \<longrightarrow>
            validateAdminToken T' sv tok = (True, sv(tok \<mapsto> T' + ADMIN_TOKEN_TTL)))
       \<and> (sv tok = Some (T + ADMIN_TOKEN_TTL) \<and> T + ADMIN_TOKEN_TTL < T' \<longrightarrow>
            validateAdminToken T' sv tok = (False, sv(tok := None)))
       \<and> (sa tok = None \<longrightarrow> validateAdminToken T' sa tok = (False, sa))"
proof -
  have ttl: "ADMIN_TOKEN_TTL = 30 * 60 * 1000" by (simp add: ADMIN_TOKEN_TTL_def)
  from assms have nz: "T + ADMIN_TOKEN_TTL \<noteq> 0" by (simp add: ADMIN_TOKEN_TTL_def)
  have created: "snd (createAdminToken tok T s) tok = Some (T + ADMIN_TOKEN_TTL)"
    by (simp add: createAdminToken_def Let_def)
  have renewed: "validateAdminToken T s tok = (True, sr) \<longrightarrow> sr tok = Some (T + ADMIN_TOKEN_TTL)"
    by (auto simp: validateAdminToken_def split: option.splits if_splits)
  have valid: "sv tok = Some (T + ADMIN_TOKEN_TTL) \<and> T' \<le> T + ADMIN_TOKEN_TTL \<longrightarrow>
            validateAdminToken T' sv tok = (True, sv(tok \<mapsto> T' + ADMIN_TOKEN_TTL))"
    using nz by (simp add: validateAdminToken_def)
  have stale: "sv tok = Some (T + ADMIN_TOKEN_TTL) \<and> T + ADMIN_TOKEN_TTL < T' \<longrightarrow>
            validateAdminToken T' sv tok = (False, sv(tok := None))"
    using nz by (simp add: validateAdminToken_def)
  have absent: "sa tok = None \<longrightarrow> validateAdminToken T' sa tok = (False, sa)"
    by (simp add: validateAdminToken_def)
  from ttl created renewed valid stale absent show ?thesis by blast
qed

theorem admin_token_sliding_expiry_witness:
  "(0::int) \<le> 1000
   \<and> snd (createAdminToken ''a1b2'' 1000 Map.empty) = example_tokens
   \<and> validateAdminToken 1801000 example_tokens ''a1b2''
        = (True, example_tokens(''a1b2'' \<mapsto> 1801000 + ADMIN_TOKEN_TTL))
   \<and> validateAdminToken 1801001 example_tokens ''a1b2''
        = (False, example_tokens(''a1b2'' := None))
   \<and> validateAdminToken 5 Map.empty ''a1b2'' = (False, Map.empty)"
proof -
  have h: "(0::int) \<le> 1000" by simp
  have ex: "example_tokens ''a1b2'' = Some (1000 + ADMIN_TOKEN_TTL)"
    by (simp add: example_tokens_def)
  have cr: "snd (createAdminToken ''a1b2'' 1000 Map.empty) = example_tokens"
    by (simp add: createAdminToken_def example_tokens_def Let_def)
  have le: "(1801000::int) \<le> 1000 + ADMIN_TOKEN_TTL" by (simp add: ADMIN_TOKEN_TTL_def)
  have gt: "1000 + ADMIN_TOKEN_TTL < (1801001::int)" by (simp add: ADMIN_TOKEN_TTL_def)
  have none: "(Map.empty :: string \<rightharpoonup> int) ''a1b2'' = None" by simp
  note T1 = admin_token_sliding_expiry[OF h, where tok = "''a1b2''" and s = Map.empty
      and sr = example_tokens and sv = example_tokens and T' = 1801000 and sa = Map.empty]
  note T2 = admin_token_sliding_expiry[OF h, where tok = "''a1b2''" and s = Map.empty
      and sr = example_tokens and sv = example_tokens and T' = 1801001 and sa = Map.empty]
  note T3 = admin_token_sliding_expiry[OF h, where tok = "''a1b2''" and s = Map.empty
      and sr = example_tokens and sv = example_tokens and T' = 5 and sa = Map.empty]
  from T1 ex le have v1: "validateAdminToken 1801000 example_tokens ''a1b2''
        = (True, example_tokens(''a1b2'' \<mapsto> 1801000 + ADMIN_TOKEN_TTL))" by blast
  from T2 ex gt have v2: "validateAdminToken 1801001 example_tokens ''a1b2''
        = (False, example_tokens(''a1b2'' := None))" by blast
  from T3 none have v3: "validateAdminToken 5 Map.empty ''a1b2'' = (False, Map.empty)" by blast
  from h cr v1 v2 v3 show ?thesis by blast
qed

section \<open>The login throttle\<close>









section \<open>Catalog validation\<close>

lemma trim_empty: "trim s = [] \<longleftrightarrow> (\<forall>c \<in> set s. is_white_space c)"
proof
  assume "trim s = []"
  then have "dropWhile is_white_space (rev (dropWhile is_white_space s)) = []"
    by (simp add: trim_def)
  then have "\<forall>c \<in> set (rev (dropWhile is_white_space s)). is_white_space c"
    by (simp only: dropWhile_eq_Nil_conv)
  then have a: "\<forall>c \<in> set (dropWhile is_white_space s). is_white_space c" by simp
  have "dropWhile is_white_space s = []"
  proof (rule ccontr)
    assume ne: "dropWhile is_white_space s \<noteq> []"
    then have "\<not> is_white_space (hd (dropWhile is_white_space s))" by (rule hd_dropWhile)
    moreover from ne have "hd (dropWhile is_white_space s) \<in> set (dropWhile is_white_space s)"
      by simp
    ultimately show False using a by blast
  qed
  then show "\<forall>c \<in> set s. is_white_space c" by (simp only: dropWhile_eq_Nil_conv)
next
  assume "\<forall>c \<in> set s. is_white_space c"
  then have e: "dropWhile is_white_space s = []" by (simp only: dropWhile_eq_Nil_conv)
  show "trim s = []" unfolding trim_def e by simp
qed

lemma tab_rule:
  "(\<not> truthy v \<or> (v \<noteq> JString ''raffles'' \<and> v \<noteq> JString ''concessions'')) \<longleftrightarrow> \<not> tab_ok v"
  by (auto simp: tab_ok_def truthy_def)

lemma text_rule:
  "(\<not> truthy v \<or> typeof v \<noteq> ''string'' \<or> trim_length v = 0) \<longleftrightarrow> \<not> text_ok v"
  by (cases v) (auto simp: text_ok_def truthy_def typeof_def trim_length_def trim_empty)

lemma price_rule:
  "(isNaN (Number S v) \<or> less_zero (Number S v)) \<longleftrightarrow> \<not> price_ok S v"
  by (cases "Number S v") (auto simp: price_ok_def isNaN_def less_zero_def)

lemma validateItemFields_Some:
  "validateItemFields S (Some it) =
     (if tab_ok (ci_tab it) then [] else [msg_tab])
     @ (if text_ok (ci_category it) then [] else [msg_category])
     @ (if text_ok (ci_name it) then [] else [msg_name])
     @ (if text_ok (ci_dataName it) then [] else [msg_dataName])
     @ (if price_ok S (ci_price it) then [] else [msg_price])"
  unfolding validateItemFields_def Let_def tab_rule text_rule price_rule
  by (simp add: push_if_def)

lemma messages_distinct:
  "distinct [msg_missing, msg_tab, msg_category, msg_name, msg_dataName, msg_price]"
  by (simp add: msg_missing_def msg_tab_def msg_category_def msg_name_def msg_dataName_def
      msg_price_def quoted_def)

text \<open>
  C9. \<^verbatim>\<open>validateItemFields\<close> is a function of the payload alone. For a payload that is
  there it returns one message for each rule the item breaks, all of them, in the order
  tab, category, name, dataName, price: the tab must be the string raffles or
  concessions; category, name and dataName must be strings with a character that is not
  white space; the price must convert to a number that is neither not-a-number nor
  negative. An item with no tab (or tab other), an empty name and a negative price gets
  exactly the three messages for tab, name and price. A missing payload gets the single
  message that says so.
\<close>

theorem validateItemFields_reports_every_violation:
  "validateItemFields S None = [msg_missing]
   \<and> validateItemFields S (Some it) =
       (if tab_ok (ci_tab it) then [] else [msg_tab])
       @ (if text_ok (ci_category it) then [] else [msg_category])
       @ (if text_ok (ci_name it) then [] else [msg_name])
       @ (if text_ok (ci_dataName it) then [] else [msg_dataName])
       @ (if price_ok S (ci_price it) then [] else [msg_price])
   \<and> (msg_tab \<in> set (validateItemFields S (Some it)) \<longleftrightarrow> \<not> tab_ok (ci_tab it))
   \<and> (msg_category \<in> set (validateItemFields S (Some it)) \<longleftrightarrow> \<not> text_ok (ci_category it))
   \<and> (msg_name \<in> set (validateItemFields S (Some it)) \<longleftrightarrow> \<not> text_ok (ci_name it))
   \<and> (msg_dataName \<in> set (validateItemFields S (Some it)) \<longleftrightarrow> \<not> text_ok (ci_dataName it))
   \<and> (msg_price \<in> set (validateItemFields S (Some it)) \<longleftrightarrow> \<not> price_ok S (ci_price it))
   \<and> (validateItemFields S (Some it) = [] \<longleftrightarrow>
         tab_ok (ci_tab it) \<and> text_ok (ci_category it) \<and> text_ok (ci_name it)
         \<and> text_ok (ci_dataName it) \<and> price_ok S (ci_price it))
   \<and> ((ci_tab it = JUndefined \<or> ci_tab it = JString ''other'') \<and> ci_name it = JString []
        \<and> ci_price it = JNumber (Fin x) \<and> x < 0
        \<and> text_ok (ci_category it) \<and> text_ok (ci_dataName it)
        \<longrightarrow> validateItemFields S (Some it) = [msg_tab, msg_name, msg_price])"
proof -
  note d = messages_distinct
  have none: "validateItemFields S None = [msg_missing]"
    by (simp add: validateItemFields_def)
  note eq = validateItemFields_Some[of S it]
  have m1: "msg_tab \<in> set (validateItemFields S (Some it)) \<longleftrightarrow> \<not> tab_ok (ci_tab it)"
    unfolding eq using d by auto
  have m2: "msg_category \<in> set (validateItemFields S (Some it)) \<longleftrightarrow> \<not> text_ok (ci_category it)"
    unfolding eq using d by auto
  have m3: "msg_name \<in> set (validateItemFields S (Some it)) \<longleftrightarrow> \<not> text_ok (ci_name it)"
    unfolding eq using d by auto
  have m4: "msg_dataName \<in> set (validateItemFields S (Some it)) \<longleftrightarrow> \<not> text_ok (ci_dataName it)"
    unfolding eq using d by auto
  have m5: "msg_price \<in> set (validateItemFields S (Some it)) \<longleftrightarrow> \<not> price_ok S (ci_price it)"
    unfolding eq using d by auto
  have ok: "validateItemFields S (Some it) = [] \<longleftrightarrow>
         tab_ok (ci_tab it) \<and> text_ok (ci_category it) \<and> text_ok (ci_name it)
         \<and> text_ok (ci_dataName it) \<and> price_ok S (ci_price it)"
    unfolding eq by auto
  have ex: "(ci_tab it = JUndefined \<or> ci_tab it = JString ''other'') \<and> ci_name it = JString []
        \<and> ci_price it = JNumber (Fin x) \<and> x < 0
        \<and> text_ok (ci_category it) \<and> text_ok (ci_dataName it)
        \<longrightarrow> validateItemFields S (Some it) = [msg_tab, msg_name, msg_price]"
    unfolding eq by (auto simp: tab_ok_def text_ok_def price_ok_def Number_def)
  from none eq m1 m2 m3 m4 m5 ok ex show ?thesis by blast
qed

theorem validateItemFields_reports_every_violation_witness:
  "validateItemFields (\<lambda>_. NaN) (Some bad_item) = [msg_tab, msg_name, msg_price]
   \<and> validateItemFields (\<lambda>_. NaN) (Some (bad_item\<lparr>ci_tab := JUndefined\<rparr>)) = [msg_tab, msg_name, msg_price]
   \<and> validateItemFields (\<lambda>_. NaN) (Some good_item) = []
   \<and> validateItemFields (\<lambda>_. NaN) None = [msg_missing]"
proof -
  have c: "text_ok (JString ''Snacks'')" and dn: "text_ok (JString ''pizza'')"
    and n: "text_ok (JString ''Pizza Slice'')"
    by (simp_all add: text_ok_def is_white_space_def)
  have ha: "(ci_tab bad_item = JUndefined \<or> ci_tab bad_item = JString ''other'')
        \<and> ci_name bad_item = JString []
        \<and> ci_price bad_item = JNumber (Fin (- 1)) \<and> (- 1 :: real) < 0
        \<and> text_ok (ci_category bad_item) \<and> text_ok (ci_dataName bad_item)"
    using c dn by (simp add: bad_item_def)
  let ?u = "bad_item\<lparr>ci_tab := JUndefined\<rparr>"
  have hb: "(ci_tab ?u = JUndefined \<or> ci_tab ?u = JString ''other'')
        \<and> ci_name ?u = JString []
        \<and> ci_price ?u = JNumber (Fin (- 1)) \<and> (- 1 :: real) < 0
        \<and> text_ok (ci_category ?u) \<and> text_ok (ci_dataName ?u)"
    using c dn by (simp add: bad_item_def)
  have hg: "tab_ok (ci_tab good_item) \<and> text_ok (ci_category good_item) \<and> text_ok (ci_name good_item)
         \<and> text_ok (ci_dataName good_item) \<and> price_ok (\<lambda>_. NaN) (ci_price good_item)"
    using c dn n by (simp add: good_item_def tab_ok_def price_ok_def Number_def)
  note T = validateItemFields_reports_every_violation
  from T[of "\<lambda>_. NaN" bad_item "- 1"] ha
  have a: "validateItemFields (\<lambda>_. NaN) (Some bad_item) = [msg_tab, msg_name, msg_price]"
    by blast
  from T[of "\<lambda>_. NaN" ?u "- 1"] hb
  have b: "validateItemFields (\<lambda>_. NaN) (Some ?u) = [msg_tab, msg_name, msg_price]"
    by blast
  from T[of "\<lambda>_. NaN" good_item 0] hg
  have g: "validateItemFields (\<lambda>_. NaN) (Some good_item) = []"
    by blast
  from T[of "\<lambda>_. NaN" good_item 0] have m: "validateItemFields (\<lambda>_. NaN) None = [msg_missing]"
    by blast
  from a b g m show ?thesis by blast
qed

end
